theory Spec2Isabelle
  imports Complex_Main "HOL-Library.Sublist"
begin

section \<open>Strings of the runtime\<close>

text \<open>
  The program is TypeScript. A string of the runtime is a sequence of UTF-16 code units, and
  \<open>length\<close>, \<open>includes\<close>, \<open>startsWith\<close> and \<open>===\<close> all work on code units, so a string is
  modelled as the list of its code units. \<open>ascii\<close> embeds a literal of printable ASCII; every
  other character of a source literal is written as its code unit (Devanagari \<open>0x0900..0x097F\<close>,
  Gujarati \<open>0x0A80..0x0AFF\<close>, Kannada \<open>0x0C80..0x0CFF\<close>, all in the basic plane, one unit each).
\<close>

type_synonym jsstring = "nat list"

abbreviation ascii :: "string \<Rightarrow> jsstring" where
  "ascii s \<equiv> map of_char s"

text \<open>
  White space as \<open>String.prototype.trim\<close> and the regular-expression class \<open>\s\<close> define it:
  TAB, LF, VT, FF, CR, SPACE, NBSP, U+1680, U+2000..U+200A, U+2028, U+2029, U+202F, U+205F,
  U+3000 and U+FEFF.
\<close>

definition isSpace :: "nat \<Rightarrow> bool" where
  "isSpace c = (c = 9 \<or> c = 10 \<or> c = 11 \<or> c = 12 \<or> c = 13 \<or> c = 32 \<or> c = 0xA0 \<or> c = 0x1680
      \<or> (0x2000 \<le> c \<and> c \<le> 0x200A) \<or> c = 0x2028 \<or> c = 0x2029 \<or> c = 0x202F
      \<or> c = 0x205F \<or> c = 0x3000 \<or> c = 0xFEFF)"

definition trim :: "jsstring \<Rightarrow> jsstring" where
  "trim s = rev (dropWhile isSpace (rev (dropWhile isSpace s)))"

text \<open>
  \<open>String.prototype.toLowerCase\<close>. \<open>lowerUnit\<close> gives the lower-case form of a code unit as
  the runtime's Unicode tables have it for Basic Latin, Latin-1 and Latin Extended-A (where
  U+0130 becomes the two units U+0069 U+0307 and U+0178 becomes U+00FF), and for U+1E9E (to
  U+00DF), the Kelvin sign U+212A (to \<open>k\<close>) and the Angstrom sign U+212B (to U+00E5). These are
  all the code points whose lower-case form has a code unit below U+0180, and U+0130 is the
  only one whose lower-case form has another length. Every other code unit is returned
  unchanged: digits, punctuation, white space and the scripts without case (Devanagari,
  Gujarati, Kannada) as in the runtime. A cased letter from U+0180 on (Greek, Cyrillic, ...),
  which the runtime maps to another letter from U+0180 on, is kept as it is; the program
  compares lower-cased text only with white space, ASCII, U+0101 and letters of the three
  scripts without case, so neither form of such a letter is equal to anything it is compared
  with.
\<close>

definition lowerUnit :: "nat \<Rightarrow> nat list" where
  "lowerUnit c =
    (if 65 \<le> c \<and> c \<le> 90 then [c + 32]
     else if 0xC0 \<le> c \<and> c \<le> 0xDE \<and> c \<noteq> 0xD7 then [c + 32]
     else if c = 0x0130 then [0x69, 0x0307]
     else if c = 0x0178 then [0xFF]
     else if ((0x0100 \<le> c \<and> c \<le> 0x0137) \<or> (0x014A \<le> c \<and> c \<le> 0x0177)) \<and> even c then [c + 1]
     else if ((0x0139 \<le> c \<and> c \<le> 0x0148) \<or> (0x0179 \<le> c \<and> c \<le> 0x017E)) \<and> odd c then [c + 1]
     else if c = 0x1E9E then [0xDF]
     else if c = 0x212A then [0x6B]
     else if c = 0x212B then [0xE5]
     else [c])"

definition toLowerCase :: "jsstring \<Rightarrow> jsstring" where
  "toLowerCase s = concat (map lowerUnit s)"

fun startsWith :: "jsstring \<Rightarrow> jsstring \<Rightarrow> bool" where
  "startsWith s [] = True"
| "startsWith [] (p # ps) = False"
| "startsWith (c # cs) (p # ps) = (c = p \<and> startsWith cs ps)"

text \<open>\<open>s.includes(sub)\<close>: \<open>sub\<close> occurs in \<open>s\<close> at some index.\<close>

fun includes_str :: "jsstring \<Rightarrow> jsstring \<Rightarrow> bool" where
  "includes_str [] sub = (sub = [])"
| "includes_str (c # cs) sub = (startsWith (c # cs) sub \<or> includes_str cs sub)"

text \<open>\<open>xs.join(sep)\<close>.\<close>

fun join :: "jsstring \<Rightarrow> jsstring list \<Rightarrow> jsstring" where
  "join sep [] = []"
| "join sep [x] = x"
| "join sep (x # y # ys) = x @ sep @ join sep (y # ys)"

section \<open>Greeting and yes/no detection of the turn orchestrator\<close>

definition greetings :: "jsstring list" where
  "greetings =
    [ascii ''hi'', ascii ''hello'', ascii ''hey'', ascii ''namaste'', ascii ''namaskar'',
     ascii ''good morning'', ascii ''good evening'', ascii ''good afternoon'',
     [0x0930, 0x093E, 0x092E, 32, 0x0930, 0x093E, 0x092E],
     ascii ''jai shree krishna'',
     [0x091C, 0x092F, 32, 0x0936, 0x094D, 0x0930, 0x0940, 32, 0x0915, 0x0943, 0x0937, 0x094D, 0x0923]]"

definition detectGreeting :: "jsstring \<Rightarrow> bool" where
  "detectGreeting text =
    (let normalized = toLowerCase (trim text) in
     if normalized = [] then False
     else list_ex (\<lambda>g. normalized = g \<or> startsWith normalized (g @ ascii '' '')) greetings)"

text \<open>
  \<open>raw.replace(/^[.\s\u0964,]+|[.\s\u0964,]+$/g, '')\<close> (the source writes the Devanagari
  danda U+0964 as the character itself): the run of class characters at the start and the run at the end are
  removed. The first alternative can match at index 0 only; the second matches at the leftmost
  index from which class characters reach the end of the string.
\<close>

definition isStripChar :: "nat \<Rightarrow> bool" where
  "isStripChar c = (c = 46 \<or> isSpace c \<or> c = 0x0964 \<or> c = 44)"

definition stripPunct :: "jsstring \<Rightarrow> jsstring" where
  "stripPunct s = rev (dropWhile isStripChar (rev (dropWhile isStripChar s)))"

definition yesWords :: "jsstring list" where
  "yesWords =
    [ascii ''haan'', ascii ''ha'', ascii ''haa'', ascii ''yes'', ascii ''y'',
     [0x091C, 0x0940],
     [0x0939, 0x093E, 0x0901],
     [0x0939, 0x093E, 0x0902],
     [0x0915, 0x0930, 32, 0x0926, 0x094B],
     [0x0915, 0x0930, 0x0926, 0x094B],
     [0x0915, 0x0930, 32, 0x0926, 0x0940, 0x091C, 0x093F, 0x090F]]"

definition noWords :: "jsstring list" where
  "noWords =
    [ascii ''nahi'', ascii ''nahin'', ascii ''na'', ascii ''no'', ascii ''n'',
     [0x092E, 0x0924],
     [0x092E, 0x0924, 32, 0x0915, 0x0930, 0x094B],
     [0x092E, 0x0924, 32, 0x0915, 0x0930],
     [0x0928, 0x0939, 0x0940, 0x0902]]"

definition detectYes :: "jsstring \<Rightarrow> bool" where
  "detectYes text =
    (let raw = trim text;
         cleaned = toLowerCase (trim (stripPunct raw))
     in list_ex (\<lambda>y. cleaned = y \<or> includes_str raw y) yesWords)"

definition detectNo :: "jsstring \<Rightarrow> bool" where
  "detectNo text =
    (let raw = trim text;
         cleaned = toLowerCase (trim (stripPunct raw))
     in list_ex (\<lambda>n. cleaned = n \<or> includes_str raw n) noWords)"

section \<open>Data model of the turn orchestrator\<close>

text \<open>
  The types of the orchestrator's source file, with the names of the source. A field whose name
  is taken twice or is a keyword here carries a suffix: \<open>text_in\<close> and \<open>intent_in\<close> are the
  \<open>text\<close> and \<open>intent\<close> of \<open>OrchestratorInput\<close>, \<open>missing_out\<close> the \<open>missing\<close> of
  \<open>OrchestratorOutput\<close>, \<open>dep_type\<close> the \<open>type\<close> of \<open>Dependency\<close>, \<open>tool_name\<close> the \<open>name\<close> of
  \<open>ToolCall\<close> and \<open>arg_leadId\<close> the \<open>leadId\<close> of its arguments.
\<close>

datatype LeadStatus = NEW | LEAD_CAPTURED

text \<open>\<open>ConversationIntent\<close>; the prefix keeps its members apart from those of \<open>LeadStatus\<close>.\<close>

datatype ConversationIntent =
  CI_GREETING | CI_NEW | CI_LEAD_CAPTURED | CI_LEAD_MODIFICATION | CI_SCHEDULE_SITE_VISIT

record ConversationState =
  leadStatus :: LeadStatus
  lastIntent :: "ConversationIntent option"
  leadId :: "jsstring option"

text \<open>\<open>HighLevelIntent\<close> and \<open>LeadIntentResult\<close> of \<open>src/lib/leadIntent.ts\<close>.\<close>

datatype HighLevelIntent =
  GREETING | NEW_LEAD | GENERATE_QUOTE_OPTIONS | UPDATE_EXISTING_LEAD | LOG_MEASUREMENT
  | GENERAL_QUESTION | OTHER

record LeadIntentResult =
  intent :: HighLevelIntent
  lead_hint :: "jsstring option"
  topic :: "jsstring option"

text \<open>
  The types of \<open>src/lib/leadAnalysis.ts\<close>. The member \<open>'unknown'\<close> of each of the three enums
  carries a suffix here.
\<close>

datatype JobType = painting | plumbing | electrical | civil | unknown_job

datatype Urgency = today | tomorrow | this_week | next_week | flexible | unknown_urgency

datatype PreferredLanguage = hi | en | mixed | unknown_language

record Customer =
  name :: "jsstring option"
  phone :: "jsstring option"

record ScopeHint =
  interior :: "bool option"
  exterior :: "bool option"

record LeadAnalysis =
  contractor_id :: "jsstring option"
  raw_utterance :: jsstring
  customer :: Customer
  location_text :: "jsstring option"
  job_type :: JobType
  scope_hint :: ScopeHint
  urgency :: Urgency
  preferred_language :: PreferredLanguage

record LeadAnalyzeLikeResponse =
  success :: bool
  data :: "LeadAnalysis option"
  error :: "jsstring option"

text \<open>
  A \<open>number | null | undefined\<close> field is a \<open>rat option\<close>: the orchestrator only tests such a
  field with \<open>!= null\<close> and for truthiness, every finite number of the runtime is a rational,
  and \<open>null\<close> and \<open>undefined\<close> (both \<open>None\<close>) pass neither test.
\<close>

record MeasurementData =
  bhk :: "rat option"
  sqft :: "rat option"
  paintable_area :: "rat option"
  ceilings :: "bool option"
  coats :: "rat option"
  putty_level :: "jsstring option"
  dampness :: "bool option"
  brand_preference :: "jsstring option"

record OrchestratorInput =
  text_in :: jsstring
  state :: ConversationState
  analysis :: LeadAnalyzeLikeResponse
  intent_in :: "LeadIntentResult option"
  measurements :: "MeasurementData option"

datatype DependencyType =
  PROJECT_REQUIRED | MEASUREMENT_REQUIRED | BHK_REQUIRED | SQFT_REQUIRED | PAINTABLE_AREA_REQUIRED

record Dependency =
  dep_type :: DependencyType
  message :: jsstring
  action :: "jsstring option"

text \<open>
  The requirements of a quote request and the arguments of the \<open>generate_quote_options\<close> tool
  call. The type \<open>QuoteRequest\<close> is imported from a module that is not among the sources; the
  fields are those of the object literals at lines 347 to 369. \<open>parseInt\<close> of a run of decimal
  digits is the number the digits denote (exact in the runtime up to \<open>2^53\<close>), a natural
  number here.
\<close>

record QuoteRequirements =
  options :: nat
  timeline :: "jsstring option"
  advance :: "nat option"
  labour_and_material :: bool

record QuoteArguments =
  arg_leadId :: "jsstring option"
  jobType :: "JobType option"
  location :: "jsstring option"
  requirements :: QuoteRequirements

record ToolCall =
  tool_name :: jsstring
  arguments :: QuoteArguments

text \<open>
  \<open>Record<string, boolean>\<close>: the keys in insertion order, which is the order \<open>Object.keys\<close>
  reports.
\<close>

type_synonym MissingMap = "(jsstring \<times> bool) list"

record OrchestratorOutput =
  reply :: jsstring
  newState :: ConversationState
  toolCall :: "ToolCall option"
  dependencies :: "Dependency list option"
  missing_out :: "MissingMap option"

text \<open>Truthiness of a \<open>string | null\<close> value: \<open>null\<close> and the empty string are falsy.\<close>

definition truthyStr :: "jsstring option \<Rightarrow> bool" where
  "truthyStr v = (case v of None \<Rightarrow> False | Some s \<Rightarrow> s \<noteq> [])"

text \<open>Truthiness of a \<open>number | null\<close> value: \<open>null\<close> and \<open>0\<close> are falsy.\<close>

definition truthyNum :: "rat option \<Rightarrow> bool" where
  "truthyNum v = (case v of None \<Rightarrow> False | Some n \<Rightarrow> n \<noteq> 0)"

section \<open>Texts of the turn orchestrator\<close>

text \<open>The literals of the source, named; U+2013 (8211) is the en dash.\<close>

definition greetingReply :: jsstring where
  "greetingReply =
    ascii ''Namaste! Main aapka painting assistant hoon. Aap bata sakte ho kis type ka painting ka kaam chahiye (ghar, office, interior, exterior) aur location kaha hai?''"

definition generalQuestionReply :: jsstring where
  "generalQuestionReply =
    ascii ''Ye ek general sawaal lag raha hai. Agar yeh kisi specific project ke baare mein hai, to please customer ka naam aur area (jaise HSR, Whitefield, JP Nagar) batao taaki sahi project pe baat ho sake.''"

definition projectRequiredMessage :: jsstring where
  "projectRequiredMessage =
    ascii ''Quote generate karne ke liye pehle project select karna hoga.''"

definition measurementRequiredMessage :: jsstring where
  "measurementRequiredMessage =
    ascii ''Quote generate karne ke liye measurement details chahiye (BHK, sqft, ya paintable area).''"

definition sqftRequiredMessage :: jsstring where
  "sqftRequiredMessage =
    ascii ''Quote generate karne ke liye sqft ya paintable area chahiye.''"

definition quoteAckReply :: jsstring where
  "quoteAckReply =
    ascii ''Theek hai, main aapke liye quote options generate kar raha hoon. Thoda wait karein...''"

definition whichProjectReply :: jsstring where
  "whichProjectReply =
    ascii ''Please batao kis project ke liye '' @ [8211]
    @ ascii '' customer ka naam, area (HSR / Whitefield / JP Nagar) ya approximate date (jaise kal ka site visit) taaki main sahi project choose kar saku.''"

definition measurementNotedReply :: jsstring where
  "measurementNotedReply =
    ascii ''Theek hai, maine measurement note kar liya hai. Agar kuch aur detail (colour, coats, area breakup) add karna ho to batao, ya phir estimate ke baare mein puch sakte ho.''"

definition siteVisitAskReply :: jsstring where
  "siteVisitAskReply =
    ascii ''Theek hai, lead confirm ho gaya hai. Ab site visit schedule karte hain '' @ [8211]
    @ ascii '' aapko kaunse din aur kis time convenient hoga customer location par?''"

definition modificationAskReply :: jsstring where
  "modificationAskReply =
    ascii ''Theek hai, batao kya change karna hai '' @ [8211]
    @ ascii '' location, area, customer detail ya painting ka scope?''"

definition analysisFailedReply :: jsstring where
  "analysisFailedReply =
    ascii ''Lead analyze karte waqt kuch problem aayi. Thodi der baad phir se try karoge?''"

definition moreDetailReply :: jsstring where
  "moreDetailReply =
    ascii ''Thoda aur detail share karo '' @ [8211]
    @ ascii '' customer ka naam, phone, location aur painting ka scope batao.''"

definition siteVisitPromptReply :: jsstring where
  "siteVisitPromptReply =
    ascii ''Site visit ke liye ek clear date aur time batao (jaise: kal dupahar 3 baje, Sunday morning 10 baje).''"

definition fallbackReply :: jsstring where
  "fallbackReply =
    ascii ''Mujhe painting ka kaam samajh aa gaya hai. Agar kuch aur specific chahiye to batao, warna hum site visit schedule kar sakte hain.''"

definition nameQuestion :: jsstring where
  "nameQuestion =
    ascii ''Customer ka naam kya hai?''"

definition phoneQuestion :: jsstring where
  "phoneQuestion =
    ascii ''Customer ka mobile number share karoge? (+91 se start ho sakta hai)''"

definition locationQuestion :: jsstring where
  "locationQuestion =
    ascii ''Site ka exact location batao (area + street / landmark).''"

definition jobTypeQuestion :: jsstring where
  "jobTypeQuestion =
    ascii ''Painting ka exact kaam batao '' @ [8211]
    @ ascii '' kis area mein (room / poora ghar / office / exterior), kaunsi surface (wall, ceiling, door/window, metal, wood) aur purana paint ki condition kaisi hai?''"

definition urgencyQuestion :: jsstring where
  "urgencyQuestion =
    ascii ''Ye kaam kab tak karwana hai? (aaj, kal, iss hafte, next week, etc.)''"

definition confirmationHead :: jsstring where
  "confirmationHead =
    ascii ''Mere hisaab se painting ka kaam samajh aa gaya hai aur saari important details mil gayi hain.''"

section \<open>Missing-field resolver and confirmation recap\<close>

record Followup =
  missing :: MissingMap
  questions :: "jsstring list"

text \<open>\<open>missing[k] = true\<close> on the object, then \<open>questions.push(q)\<close>.\<close>

fun setKey :: "jsstring \<Rightarrow> bool \<Rightarrow> MissingMap \<Rightarrow> MissingMap" where
  "setKey k v [] = [(k, v)]"
| "setKey k v (p # ps) = (if fst p = k then (k, v) # ps else p # setKey k v ps)"

definition ask :: "jsstring \<Rightarrow> jsstring \<Rightarrow> Followup \<Rightarrow> Followup" where
  "ask k q acc = \<lparr>missing = setKey k True (missing acc), questions = questions acc @ [q]\<rparr>"

text \<open>\<open>intent?.intent !== 'GENERATE_QUOTE_OPTIONS'\<close>.\<close>

definition notQuoteIntent :: "LeadIntentResult option \<Rightarrow> bool" where
  "notQuoteIntent i = (case i of None \<Rightarrow> True | Some r \<Rightarrow> intent r \<noteq> GENERATE_QUOTE_OPTIONS)"

definition generateFollowupQuestions :: "LeadAnalysis \<Rightarrow> LeadIntentResult option \<Rightarrow> Followup" where
  "generateFollowupQuestions a i =
    (let acc0 = \<lparr>missing = [], questions = []\<rparr>;
         acc1 = (if notQuoteIntent i \<and> \<not> truthyStr (name (customer a))
                 then ask (ascii ''customer_name'') nameQuestion acc0 else acc0);
         acc2 = (if notQuoteIntent i \<and> \<not> truthyStr (phone (customer a))
                 then ask (ascii ''customer_phone'') phoneQuestion acc1 else acc1);
         acc3 = (if notQuoteIntent i \<and> \<not> truthyStr (location_text a)
                 then ask (ascii ''location_text'') locationQuestion acc2 else acc2);
         acc4 = (if notQuoteIntent i \<and> job_type a = unknown_job
                 then ask (ascii ''job_type'') jobTypeQuestion acc3 else acc3);
         acc5 = (if notQuoteIntent i \<and> urgency a = unknown_urgency
                 then ask (ascii ''urgency'') urgencyQuestion acc4 else acc4)
     in acc5)"

definition jobTypeText :: "JobType \<Rightarrow> jsstring" where
  "jobTypeText j = (case j of painting \<Rightarrow> ascii ''painting'' | plumbing \<Rightarrow> ascii ''plumbing''
     | electrical \<Rightarrow> ascii ''electrical'' | civil \<Rightarrow> ascii ''civil'' | unknown_job \<Rightarrow> ascii ''unknown'')"

definition urgencyText :: "Urgency \<Rightarrow> jsstring" where
  "urgencyText u = (case u of today \<Rightarrow> ascii ''today'' | tomorrow \<Rightarrow> ascii ''tomorrow''
     | this_week \<Rightarrow> ascii ''this_week'' | next_week \<Rightarrow> ascii ''next_week''
     | flexible \<Rightarrow> ascii ''flexible'' | unknown_urgency \<Rightarrow> ascii ''unknown'')"

text \<open>
  \<open>generateConfirmation\<close>. Its declared type is \<open>string | undefined\<close>, but every path returns
  the template string, which is never empty.
\<close>

definition summaryParts :: "LeadAnalysis \<Rightarrow> jsstring list" where
  "summaryParts a =
    (case name (customer a) of
       None \<Rightarrow> []
     | Some n \<Rightarrow> if n \<noteq> [] then [ascii ''Customer: '' @ n] else [])
    @ (case location_text a of
         None \<Rightarrow> []
       | Some l \<Rightarrow> if l \<noteq> [] then [ascii ''Location: '' @ l] else [])
    @ (if job_type a \<noteq> unknown_job then [ascii ''Job: '' @ jobTypeText (job_type a)] else [])
    @ (if urgency a \<noteq> unknown_urgency then [ascii ''Urgency: '' @ urgencyText (urgency a)] else [])"

definition generateConfirmation :: "LeadAnalysis \<Rightarrow> jsstring" where
  "generateConfirmation a =
    (let parts = summaryParts a;
         recap = (if parts \<noteq> []
                  then ascii '' Quick recap '' @ [8211] @ ascii '' '' @ join (ascii '', '') parts @ ascii ''.''
                  else [])
     in confirmationHead @ recap @ ascii '' Kya yeh sahi hai?'')"

section \<open>Quote dependency gate and parameter extraction\<close>

text \<open>\<open>v != null\<close> on a \<open>number | null | undefined\<close> field.\<close>

definition notNull :: "rat option \<Rightarrow> bool" where
  "notNull v = (case v of None \<Rightarrow> False | Some n \<Rightarrow> True)"

definition hasBasicMeasurement :: "MeasurementData option \<Rightarrow> bool" where
  "hasBasicMeasurement ms =
    (case ms of
       None \<Rightarrow> False
     | Some m \<Rightarrow> notNull (bhk m) \<or> notNull (sqft m) \<or> notNull (paintable_area m))"

text \<open>
  Lines 280 to 313 of the orchestrator: the list \<open>dependencies\<close> as it stands when its length
  is tested.
\<close>

definition quoteDependencies :: "ConversationState \<Rightarrow> MeasurementData option \<Rightarrow> Dependency list" where
  "quoteDependencies st ms =
    (if \<not> truthyStr (leadId st)
     then [\<lparr>dep_type = PROJECT_REQUIRED, message = projectRequiredMessage,
            action = Some (ascii ''SELECT_PROJECT'')\<rparr>]
     else [])
    @ (if \<not> hasBasicMeasurement ms
       then [\<lparr>dep_type = MEASUREMENT_REQUIRED, message = measurementRequiredMessage,
              action = Some (ascii ''LOG_MEASUREMENT'')\<rparr>]
       else if \<not> truthyNum (case ms of None \<Rightarrow> None | Some m \<Rightarrow> sqft m)
               \<and> \<not> truthyNum (case ms of None \<Rightarrow> None | Some m \<Rightarrow> paintable_area m)
       then [\<lparr>dep_type = SQFT_REQUIRED, message = sqftRequiredMessage,
              action = Some (ascii ''LOG_MEASUREMENT'')\<rparr>]
       else [])"

text \<open>
  The regular expressions of the parameter extractor. \<open>String.prototype.match\<close> without the
  \<open>g\<close> flag tries the pattern at every start index from the left and returns the first match;
  \<open>search\<close> does that for a matcher of the pattern at the start of a string. In each pattern a
  greedy quantifier is followed by a token that none of its own characters can start (a digit
  run by white space, a letter or \<open>%\<close>; white space by a digit or a letter), so giving back part
  of a greedy match never yields a match and each matcher takes the whole run.
\<close>

fun search :: "(jsstring \<Rightarrow> 'a option) \<Rightarrow> jsstring \<Rightarrow> 'a option" where
  "search m [] = m []"
| "search m (c # cs) = (case m (c # cs) of Some r \<Rightarrow> Some r | None \<Rightarrow> search m cs)"

definition isDigit :: "nat \<Rightarrow> bool" where
  "isDigit c = (48 \<le> c \<and> c \<le> 57)"

text \<open>
  A literal of lower-case ASCII letters at the start of \<open>s\<close>; under the \<open>i\<close> flag (without
  \<open>u\<close>) a letter of the pattern also matches its ASCII capital, and no other code unit.
\<close>

fun lit :: "bool \<Rightarrow> jsstring \<Rightarrow> jsstring \<Rightarrow> bool" where
  "lit ci [] s = True"
| "lit ci (p # ps) [] = False"
| "lit ci (p # ps) (c # cs) = ((c = p \<or> (ci \<and> c + 32 = p)) \<and> lit ci ps cs)"

text \<open>\<open>parseInt(digits, 10)\<close> on a non-empty run of decimal digits.\<close>

definition parseInt :: "jsstring \<Rightarrow> nat" where
  "parseInt ds = foldl (\<lambda>n d. 10 * n + (d - 48)) 0 ds"

text \<open>\<open>/(\d+)\s*options?/\<close> at the start of \<open>s\<close>: the text of group 1.\<close>

definition optionsAt :: "jsstring \<Rightarrow> jsstring option" where
  "optionsAt s =
    (let ds = takeWhile isDigit s;
         r = dropWhile isSpace (dropWhile isDigit s)
     in if ds \<noteq> [] \<and> lit False (ascii ''option'') r then Some ds else None)"

text \<open>\<open>(?:days?|weeks?|months?)\<close> at the start of \<open>s\<close>: the number of code units matched.\<close>

definition unitLen :: "bool \<Rightarrow> jsstring \<Rightarrow> nat option" where
  "unitLen ci s =
    (if lit ci (ascii ''day'') s then Some (if lit ci (ascii ''s'') (drop 3 s) then 4 else 3)
     else if lit ci (ascii ''week'') s then Some (if lit ci (ascii ''s'') (drop 4 s) then 5 else 4)
     else if lit ci (ascii ''month'') s then Some (if lit ci (ascii ''s'') (drop 5 s) then 6 else 5)
     else None)"

text \<open>\<open>(\d+\s*(?:days?|weeks?|months?))\<close> at the start of \<open>s\<close>: the text of the group.\<close>

definition durationAt :: "bool \<Rightarrow> jsstring \<Rightarrow> jsstring option" where
  "durationAt ci s =
    (let ds = takeWhile isDigit s;
         r1 = dropWhile isDigit s;
         ws = takeWhile isSpace r1;
         r2 = dropWhile isSpace r1
     in if ds = [] then None
        else case unitLen ci r2 of None \<Rightarrow> None | Some n \<Rightarrow> Some (ds @ ws @ take n r2))"

text \<open>\<open>/timeline\s*(\d+\s*(?:days?|weeks?|months?))/i\<close> at the start of \<open>s\<close>.\<close>

definition timelineAt :: "jsstring \<Rightarrow> jsstring option" where
  "timelineAt s =
    (if lit True (ascii ''timeline'') s then durationAt True (dropWhile isSpace (drop 8 s))
     else None)"

text \<open>\<open>(\d+)\s*%\<close> at the start of \<open>s\<close>: the digits and the rest of the string after \<open>%\<close>.\<close>

definition percentAt :: "jsstring \<Rightarrow> (jsstring \<times> jsstring) option" where
  "percentAt s =
    (let ds = takeWhile isDigit s;
         r = dropWhile isSpace (dropWhile isDigit s)
     in if ds \<noteq> [] \<and> lit False [37] r then Some (ds, drop 1 r) else None)"

text \<open>
  \<open>/(?:advance|advance\s*payment)\s*(\d+)\s*%/i\<close> at the start of \<open>s\<close>: the first alternative,
  and when what follows it fails, the second.
\<close>

definition advanceBeforeAt :: "jsstring \<Rightarrow> jsstring option" where
  "advanceBeforeAt s =
    (if lit True (ascii ''advance'') s
     then (let r = dropWhile isSpace (drop 7 s) in
           case percentAt r of
             Some (ds, rest) \<Rightarrow> Some ds
           | None \<Rightarrow>
               if lit True (ascii ''payment'') r
               then map_option fst (percentAt (dropWhile isSpace (drop 7 r)))
               else None)
     else None)"

text \<open>
  \<open>/(\d+)\s*%\s*(?:advance|advance\s*payment)/i\<close> at the start of \<open>s\<close>; the second
  alternative starts with the first, so the first decides.
\<close>

definition advanceAfterAt :: "jsstring \<Rightarrow> jsstring option" where
  "advanceAfterAt s =
    (case percentAt s of
       None \<Rightarrow> None
     | Some (ds, rest) \<Rightarrow>
         if lit True (ascii ''advance'') (dropWhile isSpace rest) then Some ds else None)"

text \<open>Lines 327 to 356: the requirements read from the utterance.\<close>

definition extractRequirements :: "jsstring \<Rightarrow> QuoteRequirements" where
  "extractRequirements text =
    (let normalizedText = toLowerCase text;
         optionsMatch = search optionsAt normalizedText;
         numOptions = (case optionsMatch of Some ds \<Rightarrow> parseInt ds | None \<Rightarrow> 3);
         timelineMatch = (case search timelineAt normalizedText of
                            Some g \<Rightarrow> Some g
                          | None \<Rightarrow> search (durationAt False) normalizedText);
         advanceMatch = (case search advanceBeforeAt normalizedText of
                           Some ds \<Rightarrow> Some ds
                         | None \<Rightarrow> search advanceAfterAt normalizedText);
         labourAndMaterial =
           (includes_str normalizedText (ascii ''labour'')
            \<and> (includes_str normalizedText (ascii ''material'')
                \<or> includes_str normalizedText (ascii ''material'')))
     in \<lparr>options = numOptions, timeline = timelineMatch,
         advance = map_option parseInt advanceMatch,
         labour_and_material = labourAndMaterial\<rparr>)"

section \<open>The turn orchestrator\<close>

text \<open>
  \<open>runLeadOrchestrator\<close> is a chain of guarded \<open>return\<close> statements. Each block of the chain
  is a function into \<open>OrchestratorOutput option\<close>: \<open>Some\<close> is the value the block returns,
  \<open>None\<close> means that control leaves the block and reaches the next statement.
\<close>

text \<open>An output with the optional fields \<open>toolCall\<close>, \<open>dependencies\<close> and \<open>missing\<close> absent.\<close>

definition plain :: "jsstring \<Rightarrow> ConversationState \<Rightarrow> OrchestratorOutput" where
  "plain r st = \<lparr>reply = r, newState = st, toolCall = None, dependencies = None, missing_out = None\<rparr>"

text \<open>Lines 279 to 372: the block for \<open>GENERATE_QUOTE_OPTIONS\<close>, which always returns.\<close>

definition quoteRule :: "OrchestratorInput \<Rightarrow> OrchestratorOutput" where
  "quoteRule inp =
    (let st = state inp;
         deps = quoteDependencies st (measurements inp)
     in if deps \<noteq> []
        then (plain (ascii ''Quote generate karne ke liye kuch details chahiye: ''
                      @ join (ascii '' '') (map message deps)
                      @ ascii '' Kripya pehle ye details provide karein.'')
                    (st\<lparr>lastIntent := Some CI_NEW\<rparr>))
             \<lparr>dependencies := Some deps\<rparr>
        else (plain quoteAckReply (st\<lparr>lastIntent := Some CI_NEW\<rparr>))
             \<lparr>toolCall := Some
                \<lparr>tool_name = ascii ''generate_quote_options'',
                 arguments =
                   \<lparr>arg_leadId = leadId st,
                    jobType = map_option job_type (data (analysis inp)),
                    location = (case data (analysis inp) of
                                  None \<Rightarrow> None
                                | Some a \<Rightarrow> if truthyStr (location_text a) then location_text a else None),
                    requirements = extractRequirements (text_in inp)\<rparr>\<rparr>\<rparr>)"

text \<open>Lines 259 to 410: the rules on the classified intent, when there is one.\<close>

definition intentRules :: "OrchestratorInput \<Rightarrow> OrchestratorOutput option" where
  "intentRules inp =
    (case intent_in inp of
       None \<Rightarrow> None
     | Some i \<Rightarrow>
        (let st = state inp in
         if intent i = GREETING
         then Some (plain greetingReply (st\<lparr>lastIntent := Some CI_GREETING\<rparr>))
         else if intent i = GENERAL_QUESTION
         then Some (plain generalQuestionReply (st\<lparr>lastIntent := Some CI_GREETING\<rparr>))
         else if intent i = GENERATE_QUOTE_OPTIONS then Some (quoteRule inp)
         else if (intent i = UPDATE_EXISTING_LEAD \<or> intent i = LOG_MEASUREMENT)
                 \<and> \<not> truthyStr (leadId st)
         then
           (let hintPart = (case lead_hint i of
                              None \<Rightarrow> []
                            | Some h \<Rightarrow> if h \<noteq> []
                                        then ascii ''Aap shayad '' @ [34] @ h @ [34]
                                             @ ascii '' wale kaam ki baat kar rahe ho. ''
                                        else []);
                actionLabel = (if intent i = LOG_MEASUREMENT then ascii ''measurement''
                               else ascii ''update'')
            in Some (plain (hintPart @ ascii ''Ye '' @ actionLabel
                              @ ascii '' kisi purane project ke liye lag raha hai. ''
                              @ whichProjectReply)
                           (st\<lparr>lastIntent := Some CI_NEW\<rparr>)))
         else if intent i = LOG_MEASUREMENT \<and> truthyStr (leadId st)
         then Some (plain measurementNotedReply (st\<lparr>lastIntent := Some CI_NEW\<rparr>))
         else None))"

text \<open>Lines 423 to 450: yes/no after a confirmation message.\<close>

definition confirmationRule :: "ConversationState \<Rightarrow> jsstring \<Rightarrow> OrchestratorOutput option" where
  "confirmationRule st trimmed =
    (if lastIntent st = Some CI_LEAD_CAPTURED \<and> leadStatus st = NEW
     then (if detectYes trimmed
           then Some (plain siteVisitAskReply
                        (st\<lparr>leadStatus := LEAD_CAPTURED, lastIntent := Some CI_SCHEDULE_SITE_VISIT\<rparr>))
           else if detectNo trimmed
           then Some (plain modificationAskReply (st\<lparr>lastIntent := Some CI_LEAD_MODIFICATION\<rparr>))
           else None)
     else None)"

text \<open>Lines 463 to 498: the block on analysis data.\<close>

definition followupRule :: "OrchestratorInput \<Rightarrow> LeadAnalysis \<Rightarrow> OrchestratorOutput option" where
  "followupRule inp a =
    (let st = state inp;
         f = generateFollowupQuestions a (intent_in inp)
     in if missing f \<noteq> []
        then Some ((plain (if questions f \<noteq> [] then join [10] (questions f) else moreDetailReply)
                          (st\<lparr>leadStatus := NEW, lastIntent := Some CI_NEW\<rparr>))
                   \<lparr>missing_out := Some (missing f)\<rparr>)
        else if leadStatus st = NEW
        then (let confirmation = generateConfirmation a in
              if confirmation \<noteq> []
              then Some (plain confirmation (st\<lparr>lastIntent := Some CI_LEAD_CAPTURED\<rparr>))
              else None)
        else None)"

text \<open>Lines 452 to 516: everything after the yes/no rule.\<close>

definition analysisRules :: "OrchestratorInput \<Rightarrow> OrchestratorOutput" where
  "analysisRules inp =
    (let st = state inp; an = analysis inp in
     if \<not> success an
     then plain (case error an of Some e \<Rightarrow> e | None \<Rightarrow> analysisFailedReply) st
     else case (case data an of None \<Rightarrow> None | Some a \<Rightarrow> followupRule inp a) of
            Some out \<Rightarrow> out
          | None \<Rightarrow>
              if lastIntent st = Some CI_SCHEDULE_SITE_VISIT \<and> leadStatus st = LEAD_CAPTURED
              then plain siteVisitPromptReply st
              else plain fallbackReply st)"

definition runLeadOrchestrator :: "OrchestratorInput \<Rightarrow> OrchestratorOutput" where
  "runLeadOrchestrator inp =
    (let st = state inp;
         trimmed = trim (text_in inp)
     in case intentRules inp of
          Some out \<Rightarrow> out
        | None \<Rightarrow>
            if detectGreeting trimmed
            then plain greetingReply (st\<lparr>lastIntent := Some CI_GREETING\<rparr>)
            else case confirmationRule st trimmed of
                   Some out \<Rightarrow> out
                 | None \<Rightarrow> analysisRules inp)"

section \<open>The step flow of \<open>projectConversation.ts\<close>\<close>

text \<open>The texts of the step flow (Devanagari, written as code units).\<close>

definition firstQuestionText :: jsstring where
  "firstQuestionText =
    [0x0915, 0x0943, 0x092A, 0x092F, 0x093E, 32, 0x092C, 0x0924, 0x093E, 0x0907, 0x090F, 32,
     0x0915, 0x093F, 32, 0x092A, 0x0947, 0x0902, 0x091F, 0x093F, 0x0902, 0x0917, 32, 0x0915,
     0x093E, 32, 0x0915, 0x093E, 0x092E, 32, 0x0915, 0x0939, 0x093E, 0x0901, 32, 0x0939, 0x094B,
     32, 0x0930, 0x0939, 0x093E, 32, 0x0939, 0x0948, 63, 32, 40, 0x091C, 0x0948, 0x0938, 0x0947,
     58, 32, 0x0926, 0x094B, 32, 0x092C, 0x0940, 32, 0x090F, 0x091A, 32, 0x0915, 0x0947, 32,
     0x092B, 0x094D, 0x0932, 0x0948, 0x091F, 44, 32, 0x092C, 0x0902, 0x0917, 0x0932, 0x093E, 44,
     32, 0x0911, 0x092B, 0x093F, 0x0938, 44, 32, 0x0938, 0x094B, 0x0938, 0x093E, 0x0907, 0x091F,
     0x0940, 32, 0x0915, 0x093E, 32, 0x0935, 0x093F, 0x0902, 0x0917, 32, 0x0906, 0x0926, 0x093F, 41]"

definition secondQuestionText :: jsstring where
  "secondQuestionText =
    [0x0915, 0x093F, 0x0924, 0x0928, 0x0947, 32, 0x0915, 0x092E, 0x0930, 0x0947, 32, 0x092A,
     0x0947, 0x0902, 0x091F, 32, 0x0915, 0x0930, 0x0928, 0x0947, 32, 0x0939, 0x0948, 0x0902, 63,
     32, 40, 0x091C, 0x0948, 0x0938, 0x0947, 58, 32, 0x0926, 0x094B, 32, 0x0915, 0x092E, 0x0930,
     0x0947, 44, 32, 0x0924, 0x0940, 0x0928, 32, 0x0915, 0x092E, 0x0930, 0x0947, 44, 32, 0x090F,
     0x0915, 32, 0x0939, 0x0949, 0x0932, 32, 0x0914, 0x0930, 32, 0x0926, 0x094B, 32, 0x092C,
     0x0947, 0x0921, 0x0930, 0x0942, 0x092E, 32, 0x0906, 0x0926, 0x093F, 41]"

definition assignedReply :: jsstring where
  "assignedReply =
    [0x0920, 0x0940, 0x0915, 32, 0x0939, 0x0948, 44, 32, 0x092E, 0x0948, 0x0902, 0x0928, 0x0947,
     32, 50, 32, 0x0930, 0x093F, 0x0938, 0x094B, 0x0930, 0x094D, 0x0938, 32, 0x0907, 0x0938, 32,
     0x0915, 0x093E, 0x092E, 32, 0x0915, 0x0947, 32, 0x0932, 0x093F, 0x090F, 32, 0x0905, 0x0938,
     0x093E, 0x0907, 0x0928, 32, 0x0915, 0x0930, 32, 0x0926, 0x093F, 0x090F, 32, 0x0939, 0x0948,
     0x0902, 0x0964]"

definition notAssignedReply :: jsstring where
  "notAssignedReply =
    [0x0920, 0x0940, 0x0915, 32, 0x0939, 0x0948, 44, 32, 0x092E, 0x0948, 0x0902, 32, 0x0905,
     0x092D, 0x0940, 32, 0x0915, 0x094B, 0x0908, 32, 0x0930, 0x093F, 0x0938, 0x094B, 0x0930,
     0x094D, 0x0938, 32, 0x0905, 0x0938, 0x093E, 0x0907, 0x0928, 32, 0x0928, 0x0939, 0x0940,
     0x0902, 32, 0x0915, 0x0930, 32, 0x0930, 0x0939, 0x093E, 32, 0x0939, 0x0942, 0x0901, 0x0964]"

definition repromptReply :: jsstring where
  "repromptReply =
    [0x0915, 0x0943, 0x092A, 0x092F, 0x093E, 32, 0x0938, 0x093F, 0x0930, 0x094D, 0x092B, 32, 34,
     0x0915, 0x0930, 32, 0x0926, 0x094B, 34, 32, 0x092F, 0x093E, 32, 34, 0x092E, 0x0924, 32,
     0x0915, 0x0930, 0x094B, 34, 32, 0x092E, 0x0947, 0x0902, 32, 0x091C, 0x0935, 0x093E, 0x092C,
     32, 0x0926, 0x0947, 0x0902, 0x0964, 32, 0x0915, 0x094D, 0x092F, 0x093E, 32, 0x092E, 0x0948,
     0x0902, 32, 50, 32, 0x0930, 0x093F, 0x0938, 0x094B, 0x0930, 0x094D, 0x0938, 32, 0x0907,
     0x0938, 32, 0x0915, 0x093E, 0x092E, 32, 0x0915, 0x0947, 32, 0x0932, 0x093F, 0x090F, 32,
     0x0905, 0x0938, 0x093E, 0x0907, 0x0928, 32, 0x0915, 0x0930, 32, 0x0926, 0x0942, 0x0901, 63]"

definition roomsDefault :: jsstring where
  "roomsDefault =
    [0x0915, 0x092E, 0x0930, 0x0947]"

definition askAssignHead :: jsstring where
  "askAssignHead =
    [0x0920, 0x0940, 0x0915, 32, 0x0939, 0x0948, 44, 32, 0x0906, 0x092A, 0x0928, 0x0947, 32,
     0x092C, 0x0924, 0x093E, 0x092F, 0x093E, 32, 0x0915, 0x093F, 32, 0x092F, 0x0939, 0x093E,
     0x0901, 32]"

definition askAssignTail :: jsstring where
  "askAssignTail =
    [32, 0x092A, 0x0947, 0x0902, 0x091F, 32, 0x0915, 0x0930, 0x0928, 0x0947, 32, 0x0939, 0x0948,
     0x0902, 0x0964, 32, 0x0939, 0x092E, 0x093E, 0x0930, 0x0947, 32, 0x092A, 0x093E, 0x0938, 32,
     50, 32, 0x092A, 0x0947, 0x0902, 0x091F, 0x093F, 0x0902, 0x0917, 32, 0x0930, 0x093F, 0x0938,
     0x094B, 0x0930, 0x094D, 0x0938, 32, 0x0909, 0x092A, 0x0932, 0x092C, 0x094D, 0x0927, 32,
     0x0939, 0x0948, 0x0902, 44, 32, 0x0915, 0x094D, 0x092F, 0x093E, 32, 0x092E, 0x0948, 0x0902,
     32, 0x0907, 0x0928, 0x094D, 0x0939, 0x0947, 0x0902, 32, 0x0907, 0x0938, 32, 0x0915, 0x093E,
     0x092E, 32, 0x0915, 0x0947, 32, 0x0932, 0x093F, 0x090F, 32, 0x0905, 0x0938, 0x093E, 0x0907,
     0x0928, 32, 0x0915, 0x0930, 32, 0x0926, 0x0942, 0x0901, 63, 32, 0x0915, 0x0943, 0x092A,
     0x092F, 0x093E, 32, 0x091C, 0x0935, 0x093E, 0x092C, 32, 0x092E, 0x0947, 0x0902, 32, 0x0938,
     0x093F, 0x0930, 0x094D, 0x092B, 32, 34, 0x0915, 0x0930, 32, 0x0926, 0x094B, 34, 32, 0x092F,
     0x093E, 32, 34, 0x092E, 0x0924, 32, 0x0915, 0x0930, 0x094B, 34, 32, 0x092C, 0x094B, 0x0932,
     0x0947, 0x0902, 0x0964]"

datatype ProjectQuestionKey = Key_work_location | Key_rooms_count

record ProjectQuestion =
  key :: ProjectQuestionKey
  question_text :: jsstring

definition PROJECT_FLOW :: "ProjectQuestion list" where
  "PROJECT_FLOW =
    [\<lparr>key = Key_work_location, question_text = firstQuestionText\<rparr>,
     \<lparr>key = Key_rooms_count, question_text = secondQuestionText\<rparr>]"

text \<open>
  The per-chat state (\<open>ConversationState\<close> in this source file) and the module-level map
  \<open>conversationState\<close> from chat id to state, passed in and returned.
\<close>

record ProjectState =
  step :: nat
  answers :: "ProjectQuestionKey \<rightharpoonup> jsstring"
  waitingForAssignConfirm :: bool

type_synonym ProjectStore = "int \<rightharpoonup> ProjectState"

record ProjectConversationSavePayload =
  work_location :: "jsstring option"
  rooms_count :: "jsstring option"
  assign_resources :: bool

record ProjectConversationResult =
  replyText :: "jsstring option"
  savePayload :: "ProjectConversationSavePayload option"

definition yesValues :: "jsstring list" where
  "yesValues =
    [[0x0915, 0x0930, 32, 0x0926, 0x094B], [0x0915, 0x0930, 0x0926, 0x094B],
     [0x0915, 0x0930, 32, 0x0926, 0x0940, 0x091C, 0x093F, 0x090F],
     [0x0939, 0x093E, 0x0901, 32, 0x0915, 0x0930, 32, 0x0926, 0x094B], ascii ''haan kar do'',
     [0x0939, 0x093E, 0x0901], [0x0939, 0x093E, 0x0902], [0x0939, 0x093E], [0x091C, 0x0940],
     [0x0939, 0x093E, 0x0901, 32, 0x091C, 0x0940], [0x0AB9, 0x0ABE], [0x0AB9, 0x0ABE, 0x0A82],
     [0x0AB9, 0x0ABE, 32, 0x0A9C, 0x0AC0], [0x0A9C, 0x0AC0], [0x0CB9, 0x0CBE],
     [0x0CB9, 0x0CBE, 0x0C82], ascii ''haan'', ascii ''ha'', ascii ''haa'', ascii ''han'',
     ascii ''haana'', [104, 0x0101, 110], ascii ''yes'', ascii ''y'', ascii ''ye'', ascii ''ji'']"

definition noValues :: "jsstring list" where
  "noValues =
    [[0x092E, 0x0924, 32, 0x0915, 0x0930, 0x094B], [0x092E, 0x0924, 32, 0x0915, 0x0930],
     [0x092E, 0x0924, 32, 0x0915, 0x0940, 0x091C, 0x093F, 0x090F],
     [0x0930, 0x0926, 0x094D, 0x0926], [0x0930, 0x0926], ascii ''rad'', ascii ''cancel'',
     [0x0915, 0x0948, 0x0902, 0x0938, 0x0932], [0x0928, 0x0939, 0x0940, 0x0902],
     [0x0928, 0x0939, 0x093F], [0x092E, 0x0924], [0x0AA8, 0x0ABE],
     [0x0AA8, 0x0AB9, 0x0AC0, 0x0A82], [0x0AA8, 0x0AB9, 0x0ABF], ascii ''nahin'', ascii ''nahi'',
     ascii ''na'', ascii ''no'', ascii ''n'', ascii ''mat'']"

text \<open>
  Lines 69 to 101: \<open>isYes\<close> and \<open>isNo\<close> of the confirmation gate. \<open>includes\<close> on an array is
  membership; on \<open>raw\<close> it is the substring test, used only for \<open>raw.length <= 15\<close>.
\<close>

definition isYes :: "jsstring \<Rightarrow> bool" where
  "isYes text =
    (let raw = trim text;
         cleaned = trim (stripPunct raw);
         normalized = toLowerCase cleaned
     in normalized \<in> set yesValues \<or> cleaned \<in> set yesValues \<or> raw \<in> set yesValues
        \<or> (length raw \<le> 15 \<and> includes_str raw [0x0AB9, 0x0ABE]))"

definition isNo :: "jsstring \<Rightarrow> bool" where
  "isNo text =
    (let raw = trim text;
         cleaned = trim (stripPunct raw);
         normalized = toLowerCase cleaned
     in normalized \<in> set noValues \<or> cleaned \<in> set noValues \<or> raw \<in> set noValues
        \<or> (length raw \<le> 15
            \<and> (includes_str raw [0x0928, 0x093E] \<or> includes_str raw [0x0928, 0x0939, 0x0940, 0x0902]
                \<or> includes_str raw [0x0AA8, 0x0ABE]
                \<or> includes_str raw [0x0AA8, 0x0AB9, 0x0AC0, 0x0A82])))"

text \<open>The payload built from the answers and the decision, at lines 104 to 108 and 117 to 121.\<close>

definition payloadOf :: "ProjectState \<Rightarrow> bool \<Rightarrow> ProjectConversationSavePayload" where
  "payloadOf st decision =
    \<lparr>work_location = answers st Key_work_location,
     rooms_count = answers st Key_rooms_count,
     assign_resources = decision\<rparr>"

text \<open>\<open>PROJECT_FLOW[i]\<close>, which is \<open>undefined\<close> from the length of the array on.\<close>

definition questionAt :: "nat \<Rightarrow> ProjectQuestion option" where
  "questionAt i = (if i < length PROJECT_FLOW then Some (PROJECT_FLOW ! i) else None)"

definition noReply :: ProjectConversationResult where
  "noReply = \<lparr>replyText = None, savePayload = None\<rparr>"

definition replyOnly :: "jsstring \<Rightarrow> ProjectConversationResult" where
  "replyOnly r = \<lparr>replyText = Some r, savePayload = None\<rparr>"

text \<open>
  \<open>handleProjectConversation\<close>. The function is declared \<open>async\<close> but awaits nothing; the
  result is the value its promise resolves to, together with the map after the call. The state
  object read from the map is updated in place by the source, so the map holds the update.
\<close>

definition handleProjectConversation ::
  "ProjectStore \<Rightarrow> int \<Rightarrow> jsstring option \<Rightarrow> ProjectConversationResult \<times> ProjectStore" where
  "handleProjectConversation conversationState chatId rawText =
    (let text = trim (case rawText of None \<Rightarrow> [] | Some t \<Rightarrow> t) in
     if text = [] then (noReply, conversationState)
     else if text = ascii ''/project''
     then (let initialState = \<lparr>step = 0, answers = Map.empty, waitingForAssignConfirm = False\<rparr>;
               firstQuestion = PROJECT_FLOW ! 0
           in (replyOnly (question_text firstQuestion), conversationState(chatId \<mapsto> initialState)))
     else case conversationState chatId of
       None \<Rightarrow> (noReply, conversationState)
     | Some st \<Rightarrow>
         if waitingForAssignConfirm st
         then (if isYes text
               then (\<lparr>replyText = Some assignedReply, savePayload = Some (payloadOf st True)\<rparr>,
                     conversationState(chatId := None))
               else if isNo text
               then (\<lparr>replyText = Some notAssignedReply, savePayload = Some (payloadOf st False)\<rparr>,
                     conversationState(chatId := None))
               else (replyOnly repromptReply, conversationState))
         else case questionAt (step st) of
           None \<Rightarrow> (noReply, conversationState(chatId := None))
         | Some currentQuestion \<Rightarrow>
             (let st1 = st\<lparr>answers := (answers st)(key currentQuestion \<mapsto> text),
                           step := step st + 1\<rparr>
              in case questionAt (step st1) of
                   Some nextQuestion \<Rightarrow>
                     (replyOnly (question_text nextQuestion), conversationState(chatId \<mapsto> st1))
                 | None \<Rightarrow>
                     (let st2 = st1\<lparr>waitingForAssignConfirm := True\<rparr>;
                          rooms = (case answers st2 Key_rooms_count of
                                     None \<Rightarrow> roomsDefault
                                   | Some r \<Rightarrow> if r \<noteq> [] then r else roomsDefault)
                      in (replyOnly (askAssignHead @ rooms @ askAssignTail),
                          conversationState(chatId \<mapsto> st2)))))"

section \<open>The yes/no classification of the two state machines\<close>

datatype Confirmation = YES | NO | AMBIGUOUS

text \<open>
  The turn orchestrator tests \<open>detectYes\<close> first and \<open>detectNo\<close> second (lines 424 and 439); the
  step flow tests \<open>isYes\<close> first and \<open>isNo\<close> second (lines 103 and 116). These two definitions
  name the branch taken.
\<close>

definition orchestratorConfirmation :: "jsstring \<Rightarrow> Confirmation" where
  "orchestratorConfirmation text =
    (if detectYes text then YES else if detectNo text then NO else AMBIGUOUS)"

definition stepFlowConfirmation :: "jsstring \<Rightarrow> Confirmation" where
  "stepFlowConfirmation text =
    (if isYes text then YES else if isNo text then NO else AMBIGUOUS)"

section \<open>Concrete turns\<close>

text \<open>A conversation that has just started, one that awaits a yes/no, and one after the yes.\<close>

definition freshState :: ConversationState where
  "freshState = \<lparr>leadStatus = NEW, lastIntent = None, leadId = None\<rparr>"

definition pendingState :: ConversationState where
  "pendingState = \<lparr>leadStatus = NEW, lastIntent = Some CI_LEAD_CAPTURED, leadId = None\<rparr>"

definition visitState :: ConversationState where
  "visitState = \<lparr>leadStatus = LEAD_CAPTURED, lastIntent = Some CI_SCHEDULE_SITE_VISIT, leadId = None\<rparr>"

text \<open>An analysis with every field present, and one of an utterance that only names a time.\<close>

definition fullAnalysis :: LeadAnalysis where
  "fullAnalysis =
    \<lparr>contractor_id = None, raw_utterance = ascii ''Ramesh ka HSR mein ghar paint karna hai'',
     customer = \<lparr>name = Some (ascii ''Ramesh''), phone = Some (ascii ''+919876543210'')\<rparr>,
     location_text = Some (ascii ''HSR Layout''), job_type = painting,
     scope_hint = \<lparr>interior = Some True, exterior = None\<rparr>,
     urgency = this_week, preferred_language = mixed\<rparr>"

definition timeOnlyAnalysis :: LeadAnalysis where
  "timeOnlyAnalysis =
    \<lparr>contractor_id = None, raw_utterance = ascii ''kal dupahar 3 baje'',
     customer = \<lparr>name = None, phone = None\<rparr>,
     location_text = None, job_type = unknown_job,
     scope_hint = \<lparr>interior = None, exterior = None\<rparr>,
     urgency = tomorrow, preferred_language = mixed\<rparr>"

definition analysed :: "LeadAnalysis \<Rightarrow> LeadAnalyzeLikeResponse" where
  "analysed a = \<lparr>success = True, data = Some a, error = None\<rparr>"

text \<open>A turn without classified intent and without measurements.\<close>

definition turn :: "jsstring \<Rightarrow> ConversationState \<Rightarrow> LeadAnalyzeLikeResponse \<Rightarrow> OrchestratorInput" where
  "turn t st an = \<lparr>text_in = t, state = st, analysis = an, intent_in = None, measurements = None\<rparr>"

text \<open>After the lead is captured the user names a time; the analysis of that utterance has no
  customer, location or job type.\<close>

definition timeTurn :: OrchestratorInput where
  "timeTurn = turn (ascii ''kal dupahar 3 baje'') visitState (analysed timeOnlyAnalysis)"

text \<open>After the lead is captured, a turn whose analysis is complete.\<close>

definition visitTurn :: OrchestratorInput where
  "visitTurn = turn (ascii ''kal dupahar 3 baje'') visitState (analysed fullAnalysis)"

text \<open>The complete analysis, but with the empty string as the customer's name.\<close>

definition blankNameAnalysis :: LeadAnalysis where
  "blankNameAnalysis = fullAnalysis\<lparr>customer := \<lparr>name = Some [], phone = Some (ascii ''+919876543210'')\<rparr>\<rparr>"

text \<open>Answers to a pending confirmation: \<open>ji\<close> and \<open>bas theek hai\<close>.\<close>

definition jiTurn :: OrchestratorInput where
  "jiTurn = turn (ascii ''ji'') pendingState (analysed fullAnalysis)"

definition basTheekHaiTurn :: OrchestratorInput where
  "basTheekHaiTurn = turn (ascii ''bas theek hai'') pendingState (analysed fullAnalysis)"

text \<open>A first utterance that gives every detail and opens with a greeting word.\<close>

definition helloTurn :: OrchestratorInput where
  "helloTurn =
    turn (ascii ''hello Ramesh ka HSR mein ghar paint karna hai'') freshState (analysed fullAnalysis)"

text \<open>The step flow of chat 7 after the first answer, and a start command with blanks around it.\<close>

definition inProgressStore :: ProjectStore where
  "inProgressStore =
    [7 \<mapsto> \<lparr>step = 1, answers = [Key_work_location \<mapsto> ascii ''2 BHK flat''],
            waitingForAssignConfirm = False\<rparr>]"

definition paddedStart :: jsstring where
  "paddedStart = ascii '' /project ''"

text \<open>An answer that says both yes and no.\<close>

definition haanNahiTurn :: OrchestratorInput where
  "haanNahiTurn = turn (ascii ''haan nahi'') pendingState (analysed fullAnalysis)"

text \<open>The step flow of chat 7 with both answers given, waiting for the yes/no.\<close>

definition waitingStore :: ProjectStore where
  "waitingStore =
    [7 \<mapsto> \<lparr>step = 2,
            answers = [Key_work_location \<mapsto> ascii ''2 BHK flat'', Key_rooms_count \<mapsto> ascii ''3''],
            waitingForAssignConfirm = True\<rparr>]"

text \<open>
  The inputs of the resolver's examples: \<open>haan\<close> in Devanagari (U+0939 U+093E U+0901), \<open>nahin\<close>
  in Devanagari (U+0928 U+0939 U+0940 U+0902), and \<open>kar do\<close> in Devanagari followed by the
  danda U+0964.
\<close>

definition haanDevanagari :: jsstring where
  "haanDevanagari = [0x0939, 0x093E, 0x0901]"

definition nahinDevanagari :: jsstring where
  "nahinDevanagari = [0x0928, 0x0939, 0x0940, 0x0902]"

definition karDoDanda :: jsstring where
  "karDoDanda = [0x0915, 0x0930, 32, 0x0926, 0x094B, 0x0964]"

text \<open>
  The first turn of a conversation with a successful analysis \<open>a\<close>, and a turn on the state
  that an earlier output returned.
\<close>

definition firstTurn ::
  "jsstring \<Rightarrow> LeadAnalysis \<Rightarrow> jsstring option \<Rightarrow> LeadIntentResult option \<Rightarrow> MeasurementData option
    \<Rightarrow> OrchestratorInput" where
  "firstTurn t a e i m =
    \<lparr>text_in = t, state = freshState, analysis = \<lparr>success = True, data = Some a, error = e\<rparr>,
     intent_in = i, measurements = m\<rparr>"

definition nextTurn ::
  "jsstring \<Rightarrow> OrchestratorOutput \<Rightarrow> LeadAnalyzeLikeResponse \<Rightarrow> LeadIntentResult option
    \<Rightarrow> MeasurementData option \<Rightarrow> OrchestratorInput" where
  "nextTurn t out an i m =
    \<lparr>text_in = t, state = newState out, analysis = an, intent_in = i, measurements = m\<rparr>"

definition firstUtterance :: jsstring where
  "firstUtterance = ascii ''Ramesh ka HSR mein ghar paint karna hai''"

text \<open>
  The pattern \<open>(\d+)\s*options?\<close> in the words of the specification: somewhere in the text a
  run of digits, optional white space and the word \<open>option\<close> (the optional \<open>s\<close> changes
  nothing about whether there is a match).
\<close>

definition hasOptionsPhrase :: "jsstring \<Rightarrow> bool" where
  "hasOptionsPhrase t =
    (\<exists>pre ds ws post. t = pre @ ds @ ws @ ascii ''option'' @ post
        \<and> ds \<noteq> [] \<and> list_all isDigit ds \<and> list_all isSpace ws)"

text \<open>A quote request on a bound project with a measured area.\<close>

definition quoteTurn :: OrchestratorInput where
  "quoteTurn =
    \<lparr>text_in = ascii ''3 options, timeline 5 days, advance 30%'',
     state = \<lparr>leadStatus = LEAD_CAPTURED, lastIntent = Some CI_NEW, leadId = Some (ascii ''x'')\<rparr>,
     analysis = \<lparr>success = True, data = None, error = None\<rparr>,
     intent_in = Some \<lparr>intent = GENERATE_QUOTE_OPTIONS, lead_hint = None, topic = None\<rparr>,
     measurements = Some \<lparr>bhk = None, sqft = Some 800, paintable_area = None, ceilings = None,
                           coats = None, putty_level = None, dampness = None,
                           brand_preference = None\<rparr>\<rparr>"

definition quoteWithoutCount :: jsstring where
  "quoteWithoutCount = ascii ''Quote banao, 2 weeks mein''"

section \<open>Properties of the turn orchestrator\<close>

lemmas string_defs =
  trim_def isSpace_def stripPunct_def isStripChar_def toLowerCase_def lowerUnit_def

text \<open>
  Lower-casing beyond ASCII where the program can see it: \<open>NAMAS\<close>, the Kelvin sign and \<open>AR\<close>
  lower-case to \<open>namaskar\<close> and are a greeting; \<open>H\<close>, U+0100 and \<open>N\<close> lower-case to the
  yes-value with U+0101 of the step flow; U+0130 becomes two code units.
\<close>

lemma toLowerCase_examples:
  "toLowerCase (ascii ''NAMAS'' @ [0x212A] @ ascii ''AR'') = ascii ''namaskar''"
  "detectGreeting (ascii ''namas'' @ [0x212A] @ ascii ''ar'')"
  "isYes (ascii ''H'' @ [0x0100] @ ascii ''N'')"
  "toLowerCase [0x0130] = [0x69, 0x0307]"
  by (simp_all add: detectGreeting_def greetings_def isYes_def yesValues_def string_defs)

lemma plain_newState [simp]: "newState (plain r st) = st"
  by (simp add: plain_def)

lemma plain_missing_out [simp]: "missing_out (plain r st) = None"
  by (simp add: plain_def)

lemma plain_reply [simp]: "reply (plain r st) = r"
  by (simp add: plain_def)

lemma quoteRule_newState: "newState (quoteRule inp) = (state inp)\<lparr>lastIntent := Some CI_NEW\<rparr>"
  by (simp add: quoteRule_def Let_def)

lemma intentRules_newState:
  assumes "intentRules inp = Some out"
  shows "newState out = (state inp)\<lparr>lastIntent := Some CI_GREETING\<rparr>
         \<or> newState out = (state inp)\<lparr>lastIntent := Some CI_NEW\<rparr>"
  using assms
  by (auto simp: intentRules_def Let_def quoteRule_newState split: if_splits option.splits)

lemma confirmationRule_cases:
  assumes "confirmationRule st t = Some out"
  shows "leadStatus st = NEW \<and> missing_out out = None \<and>
         (newState out = st\<lparr>leadStatus := LEAD_CAPTURED, lastIntent := Some CI_SCHEDULE_SITE_VISIT\<rparr>
          \<or> newState out = st\<lparr>lastIntent := Some CI_LEAD_MODIFICATION\<rparr>)"
  using assms by (auto simp: confirmationRule_def split: if_splits)

lemma followupRule_cases:
  assumes "followupRule inp a = Some out"
  shows "(missing_out out \<noteq> None
            \<and> newState out = (state inp)\<lparr>leadStatus := NEW, lastIntent := Some CI_NEW\<rparr>)
         \<or> (missing_out out = None
            \<and> newState out = (state inp)\<lparr>lastIntent := Some CI_LEAD_CAPTURED\<rparr>)"
  using assms by (auto simp: followupRule_def Let_def split: if_splits)

lemma analysisRules_cases:
  "(missing_out (analysisRules inp) \<noteq> None
      \<and> newState (analysisRules inp) = (state inp)\<lparr>leadStatus := NEW, lastIntent := Some CI_NEW\<rparr>)
   \<or> (missing_out (analysisRules inp) = None
      \<and> (newState (analysisRules inp) = (state inp)\<lparr>lastIntent := Some CI_LEAD_CAPTURED\<rparr>
          \<or> newState (analysisRules inp) = state inp))"
  by (auto simp: analysisRules_def Let_def split: option.splits dest: followupRule_cases)

text \<open>The four ways a turn ends: an intent rule, the greeting, the yes/no rule, or the rest.\<close>

lemma run_cases:
  "(\<exists>out. intentRules inp = Some out \<and> runLeadOrchestrator inp = out)
   \<or> runLeadOrchestrator inp = plain greetingReply ((state inp)\<lparr>lastIntent := Some CI_GREETING\<rparr>)
   \<or> (\<exists>out. confirmationRule (state inp) (trim (text_in inp)) = Some out
            \<and> runLeadOrchestrator inp = out)
   \<or> runLeadOrchestrator inp = analysisRules inp"
  by (auto simp: runLeadOrchestrator_def Let_def split: option.splits)

subsection \<open>The two turns after a captured lead\<close>

lemma timeOnly_followup:
  "generateFollowupQuestions timeOnlyAnalysis None =
     \<lparr>missing = [(ascii ''customer_name'', True), (ascii ''customer_phone'', True),
                 (ascii ''location_text'', True), (ascii ''job_type'', True)],
      questions = [nameQuestion, phoneQuestion, locationQuestion, jobTypeQuestion]\<rparr>"
  by (simp add: generateFollowupQuestions_def timeOnlyAnalysis_def notQuoteIntent_def
      truthyStr_def ask_def)

lemma full_followup:
  "generateFollowupQuestions fullAnalysis None = \<lparr>missing = [], questions = []\<rparr>"
  by (simp add: generateFollowupQuestions_def fullAnalysis_def notQuoteIntent_def
      truthyStr_def ask_def)

lemma not_greeting_kal: "\<not> detectGreeting (trim (ascii ''kal dupahar 3 baje''))"
  by (simp add: detectGreeting_def greetings_def string_defs)

lemma timeTurn_run:
  "runLeadOrchestrator timeTurn =
     (plain (join [10] [nameQuestion, phoneQuestion, locationQuestion, jobTypeQuestion])
        (visitState\<lparr>leadStatus := NEW, lastIntent := Some CI_NEW\<rparr>))
     \<lparr>missing_out := Some [(ascii ''customer_name'', True), (ascii ''customer_phone'', True),
                           (ascii ''location_text'', True), (ascii ''job_type'', True)]\<rparr>"
  using not_greeting_kal
  by (simp add: runLeadOrchestrator_def timeTurn_def turn_def intentRules_def confirmationRule_def
      visitState_def analysisRules_def analysed_def followupRule_def timeOnly_followup)

lemma visitTurn_run: "runLeadOrchestrator visitTurn = plain siteVisitPromptReply visitState"
  using not_greeting_kal
  by (simp add: runLeadOrchestrator_def visitTurn_def turn_def intentRules_def confirmationRule_def
      visitState_def analysisRules_def analysed_def followupRule_def full_followup)

subsection \<open>C1: the lead status\<close>

text \<open>
  C1 as stated fails. With the lead captured and a site visit being scheduled, the user answers
  with a time; the analysis of that utterance lacks the customer, and the missing-field branch
  (lines 468 to 483) writes \<open>leadStatus: 'NEW'\<close>: the status goes from \<open>LEAD_CAPTURED\<close> back to
  \<open>NEW\<close>.
\<close>

theorem leadStatus_reverts_counterexample:
  "leadStatus (state timeTurn) = LEAD_CAPTURED
   \<and> leadStatus (newState (runLeadOrchestrator timeTurn)) = NEW"
  unfolding timeTurn_run by (simp add: timeTurn_def turn_def visitState_def)

text \<open>
  C1, amended: on every turn whose output carries no \<open>missing\<close> map, that is on every turn that
  does not end in the missing-field branch, a \<open>leadStatus\<close> of \<open>LEAD_CAPTURED\<close> stays
  \<open>LEAD_CAPTURED\<close>, for every text, state, analysis, intent and measurements.
\<close>

theorem leadStatus_kept_without_missing:
  assumes "missing_out (runLeadOrchestrator inp) = None"
      and "leadStatus (state inp) = LEAD_CAPTURED"
  shows "leadStatus (newState (runLeadOrchestrator inp)) = LEAD_CAPTURED"
proof -
  consider (intent) out where "intentRules inp = Some out" "runLeadOrchestrator inp = out"
    | (greeting) "runLeadOrchestrator inp
                    = plain greetingReply ((state inp)\<lparr>lastIntent := Some CI_GREETING\<rparr>)"
    | (confirm) out where "confirmationRule (state inp) (trim (text_in inp)) = Some out"
                          "runLeadOrchestrator inp = out"
    | (rest) "runLeadOrchestrator inp = analysisRules inp"
    using run_cases [of inp] by blast
  then show ?thesis
  proof cases
    case intent
    then show ?thesis using intentRules_newState [OF intent(1)] assms(2) by auto
  next
    case greeting
    then show ?thesis using assms(2) by simp
  next
    case confirm
    then show ?thesis using confirmationRule_cases [OF confirm(1)] assms(2) by auto
  next
    case rest
    then show ?thesis using analysisRules_cases [of inp] assms by auto
  qed
qed

text \<open>The amended C1 at a turn that keeps prompting for the visit.\<close>

theorem leadStatus_kept_without_missing_witness:
  "missing_out (runLeadOrchestrator visitTurn) = None
   \<and> leadStatus (state visitTurn) = LEAD_CAPTURED
   \<and> leadStatus (newState (runLeadOrchestrator visitTurn)) = LEAD_CAPTURED"
proof -
  have h1: "missing_out (runLeadOrchestrator visitTurn) = None"
    unfolding visitTurn_run by simp
  have h2: "leadStatus (state visitTurn) = LEAD_CAPTURED"
    by (simp add: visitTurn_def turn_def visitState_def)
  show ?thesis using h1 h2 leadStatus_kept_without_missing [OF h1 h2] by simp
qed

subsection \<open>C3: the quote dependency gate\<close>

text \<open>
  C3: without \<open>leadId\<close> and without measurements the gate yields \<open>PROJECT_REQUIRED\<close> then
  \<open>MEASUREMENT_REQUIRED\<close>; with \<open>leadId = "x"\<close> and only \<open>bhk = 2\<close> it yields \<open>SQFT_REQUIRED\<close>
  alone; with \<open>leadId = "x"\<close> and \<open>sqft = 800\<close> it yields the empty list; and for every state and
  every measurements the types of the list, in order, are taken in order from
  \<open>PROJECT_REQUIRED\<close>, \<open>MEASUREMENT_REQUIRED\<close>, \<open>SQFT_REQUIRED\<close>.
\<close>

theorem quote_gate_lists:
  "quoteDependencies (st\<lparr>leadId := None\<rparr>) None =
     [\<lparr>dep_type = PROJECT_REQUIRED, message = projectRequiredMessage,
       action = Some (ascii ''SELECT_PROJECT'')\<rparr>,
      \<lparr>dep_type = MEASUREMENT_REQUIRED, message = measurementRequiredMessage,
       action = Some (ascii ''LOG_MEASUREMENT'')\<rparr>]
   \<and> quoteDependencies (st\<lparr>leadId := Some (ascii ''x'')\<rparr>)
        (Some (m\<lparr>bhk := Some 2, sqft := None, paintable_area := None\<rparr>)) =
     [\<lparr>dep_type = SQFT_REQUIRED, message = sqftRequiredMessage,
       action = Some (ascii ''LOG_MEASUREMENT'')\<rparr>]
   \<and> quoteDependencies (st\<lparr>leadId := Some (ascii ''x'')\<rparr>)
        (Some (m\<lparr>bhk := None, sqft := Some 800, paintable_area := None\<rparr>)) = []
   \<and> subseq (map dep_type (quoteDependencies st' ms))
        [PROJECT_REQUIRED, MEASUREMENT_REQUIRED, SQFT_REQUIRED]"
  by (simp add: quoteDependencies_def hasBasicMeasurement_def notNull_def truthyStr_def
      truthyNum_def)

subsection \<open>C10: the project binding\<close>

text \<open>
  C10: for every text, state, analysis, intent and measurements, the \<open>leadId\<close> of the returned
  state is the \<open>leadId\<close> of the input state.
\<close>

theorem leadId_preserved: "leadId (newState (runLeadOrchestrator inp)) = leadId (state inp)"
proof -
  consider (intent) out where "intentRules inp = Some out" "runLeadOrchestrator inp = out"
    | (greeting) "runLeadOrchestrator inp
                    = plain greetingReply ((state inp)\<lparr>lastIntent := Some CI_GREETING\<rparr>)"
    | (confirm) out where "confirmationRule (state inp) (trim (text_in inp)) = Some out"
                          "runLeadOrchestrator inp = out"
    | (rest) "runLeadOrchestrator inp = analysisRules inp"
    using run_cases [of inp] by blast
  then show ?thesis
  proof cases
    case intent
    then show ?thesis using intentRules_newState [OF intent(1)] by auto
  next
    case greeting
    then show ?thesis by simp
  next
    case confirm
    then show ?thesis using confirmationRule_cases [OF confirm(1)] by auto
  next
    case rest
    then show ?thesis using analysisRules_cases [of inp] by auto
  qed
qed

subsection \<open>C5: the missing-field resolver\<close>

lemma keys_distinct:
  "ascii ''customer_name'' \<noteq> ascii ''customer_phone''"
  "ascii ''customer_name'' \<noteq> ascii ''location_text''"
  "ascii ''customer_name'' \<noteq> ascii ''job_type''"
  "ascii ''customer_name'' \<noteq> ascii ''urgency''"
  "ascii ''customer_phone'' \<noteq> ascii ''location_text''"
  "ascii ''customer_phone'' \<noteq> ascii ''job_type''"
  "ascii ''customer_phone'' \<noteq> ascii ''urgency''"
  "ascii ''location_text'' \<noteq> ascii ''job_type''"
  "ascii ''location_text'' \<noteq> ascii ''urgency''"
  "ascii ''job_type'' \<noteq> ascii ''urgency''"
  by simp_all

text \<open>
  C5 as stated fails on "exactly when the field is null": the checks on name, phone and location
  are truthiness tests (\<open>!analysis.customer.name\<close>), so a name that is the empty string, which
  is not \<open>null\<close>, is asked for as well.
\<close>

theorem followup_empty_name_counterexample:
  "name (customer blankNameAnalysis) = Some []
   \<and> generateFollowupQuestions blankNameAnalysis None =
       \<lparr>missing = [(ascii ''customer_name'', True)], questions = [nameQuestion]\<rparr>"
  by (simp add: generateFollowupQuestions_def blankNameAnalysis_def fullAnalysis_def
      notQuoteIntent_def truthyStr_def ask_def)

text \<open>
  C5, amended: for intent \<open>GENERATE_QUOTE_OPTIONS\<close> the missing map and the questions are empty
  whatever the analysis holds; for every other intent and for no intent, each of the five checks
  contributes its key and its question exactly when its field is \<open>null\<close> or the empty string
  (name, phone, location) or \<open>unknown\<close> (job type, urgency), independently of the other checks
  and in the order name, phone, location, job type, urgency; so both are empty when every check
  passes.
\<close>

theorem followup_closed_form:
  "generateFollowupQuestions a i =
    (if notQuoteIntent i
     then \<lparr>missing =
             (if name (customer a) = None \<or> name (customer a) = Some []
              then [(ascii ''customer_name'', True)] else [])
             @ (if phone (customer a) = None \<or> phone (customer a) = Some []
                then [(ascii ''customer_phone'', True)] else [])
             @ (if location_text a = None \<or> location_text a = Some []
                then [(ascii ''location_text'', True)] else [])
             @ (if job_type a = unknown_job then [(ascii ''job_type'', True)] else [])
             @ (if urgency a = unknown_urgency then [(ascii ''urgency'', True)] else []),
           questions =
             (if name (customer a) = None \<or> name (customer a) = Some []
              then [nameQuestion] else [])
             @ (if phone (customer a) = None \<or> phone (customer a) = Some []
                then [phoneQuestion] else [])
             @ (if location_text a = None \<or> location_text a = Some []
                then [locationQuestion] else [])
             @ (if job_type a = unknown_job then [jobTypeQuestion] else [])
             @ (if urgency a = unknown_urgency then [urgencyQuestion] else [])\<rparr>
     else \<lparr>missing = [], questions = []\<rparr>)"
proof -
  have t: "\<And>v. (\<not> truthyStr v) = (v = None \<or> v = Some [])"
    by (simp add: truthyStr_def split: option.splits)
  show ?thesis
    unfolding generateFollowupQuestions_def Let_def ask_def t
    by (simp del: list.map add: keys_distinct)
qed

subsection \<open>C7: yes and no on a pending confirmation\<close>

lemma haan_eval:
  "trim (ascii ''haan'') = ascii ''haan''" "\<not> detectGreeting (ascii ''haan'')"
  "detectYes (ascii ''haan'')" "detectNo (ascii ''haan'')"
  by (simp_all add: detectGreeting_def greetings_def detectYes_def yesWords_def detectNo_def
      noWords_def string_defs)

lemma ji_eval:
  "trim (ascii ''ji'') = ascii ''ji''" "\<not> detectGreeting (ascii ''ji'')"
  "\<not> detectYes (ascii ''ji'')" "\<not> detectNo (ascii ''ji'')"
  by (simp_all add: detectGreeting_def greetings_def detectYes_def yesWords_def detectNo_def
      noWords_def string_defs)

lemma haanNahi_eval:
  "trim (ascii ''haan nahi'') = ascii ''haan nahi''" "\<not> detectGreeting (ascii ''haan nahi'')"
  "detectYes (ascii ''haan nahi'')" "detectNo (ascii ''haan nahi'')"
  by (simp_all add: detectGreeting_def greetings_def detectYes_def yesWords_def detectNo_def
      noWords_def string_defs)

lemma haanNahiTurn_run:
  "runLeadOrchestrator haanNahiTurn =
     plain siteVisitAskReply
       (pendingState\<lparr>leadStatus := LEAD_CAPTURED, lastIntent := Some CI_SCHEDULE_SITE_VISIT\<rparr>)"
  using haanNahi_eval
  by (simp add: runLeadOrchestrator_def haanNahiTurn_def turn_def intentRules_def
      confirmationRule_def pendingState_def)

text \<open>
  C7 as stated fails where both checks fire. On \<open>haan nahi\<close> the yes-check fires (the text
  contains \<open>haan\<close>) and the no-check fires (it contains \<open>nahi\<close>); the pending-confirmation rule
  tests \<open>detectYes\<close> first and captures the lead instead of falling through.
\<close>

theorem both_fire_counterexample:
  "detectYes (ascii ''haan nahi'') \<and> detectNo (ascii ''haan nahi'')
   \<and> lastIntent (state haanNahiTurn) = Some CI_LEAD_CAPTURED
   \<and> leadStatus (state haanNahiTurn) = NEW
   \<and> leadStatus (newState (runLeadOrchestrator haanNahiTurn)) = LEAD_CAPTURED"
  unfolding haanNahiTurn_run using haanNahi_eval
  by (simp add: haanNahiTurn_def turn_def pendingState_def)

text \<open>
  C7, amended: in the pending-confirmation state, when no intent rule and no greeting ends the
  turn, the yes-check is tested first and the no-check second. If the yes-check fires, also
  together with the no-check, the lead is captured; if only the no-check fires, a modification
  is asked for; if neither fires, the rule builds no state and the turn is decided by the later
  rules alone.
\<close>

theorem pending_confirmation_rule:
  assumes "lastIntent (state inp) = Some CI_LEAD_CAPTURED" and "leadStatus (state inp) = NEW"
      and "intentRules inp = None"
      and "\<not> detectGreeting (trim (text_in inp))"
  shows "runLeadOrchestrator inp =
          (if detectYes (trim (text_in inp))
           then plain siteVisitAskReply
                  ((state inp)\<lparr>leadStatus := LEAD_CAPTURED,
                               lastIntent := Some CI_SCHEDULE_SITE_VISIT\<rparr>)
           else if detectNo (trim (text_in inp))
           then plain modificationAskReply ((state inp)\<lparr>lastIntent := Some CI_LEAD_MODIFICATION\<rparr>)
           else analysisRules inp)"
  using assms by (simp add: runLeadOrchestrator_def confirmationRule_def Let_def)

text \<open>The amended C7 on \<open>ji\<close>, where neither check fires.\<close>

theorem pending_confirmation_rule_witness:
  "lastIntent (state jiTurn) = Some CI_LEAD_CAPTURED \<and> leadStatus (state jiTurn) = NEW
   \<and> intentRules jiTurn = None \<and> \<not> detectGreeting (trim (text_in jiTurn))
   \<and> \<not> detectYes (trim (text_in jiTurn)) \<and> \<not> detectNo (trim (text_in jiTurn))
   \<and> runLeadOrchestrator jiTurn = analysisRules jiTurn"
proof -
  have t: "text_in jiTurn = ascii ''ji''"
    unfolding jiTurn_def turn_def by simp
  have h1: "lastIntent (state jiTurn) = Some CI_LEAD_CAPTURED"
    by (simp add: jiTurn_def turn_def pendingState_def)
  have h2: "leadStatus (state jiTurn) = NEW"
    by (simp add: jiTurn_def turn_def pendingState_def)
  have h3: "intentRules jiTurn = None"
    by (simp add: intentRules_def jiTurn_def turn_def)
  have h4: "\<not> detectGreeting (trim (text_in jiTurn))"
    unfolding t using ji_eval by simp
  have h5: "\<not> detectYes (trim (text_in jiTurn))" "\<not> detectNo (trim (text_in jiTurn))"
    unfolding t using ji_eval by simp_all
  show ?thesis
    using h1 h2 h3 h4 h5 pending_confirmation_rule [OF h1 h2 h3 h4] by simp
qed

subsection \<open>C9: the start command of the step flow\<close>

text \<open>
  C9: a message that is \<open>/project\<close> after trimming sets the state of its chat to step 0 with no
  answers and no pending confirmation, whatever the map held for that chat before, leaves the
  other chats alone and replies with the first question; sending it again gives the same reply
  and the same map.
\<close>

theorem start_command_resets:
  assumes "trim raw = ascii ''/project''"
  shows "handleProjectConversation cs chatId (Some raw) =
           (replyOnly firstQuestionText,
            cs(chatId \<mapsto> \<lparr>step = 0, answers = Map.empty, waitingForAssignConfirm = False\<rparr>))
         \<and> handleProjectConversation (snd (handleProjectConversation cs chatId (Some raw)))
              chatId (Some raw) =
           handleProjectConversation cs chatId (Some raw)"
  using assms by (simp add: handleProjectConversation_def PROJECT_FLOW_def Let_def)

text \<open>C9 on a chat that had already answered the first question.\<close>

theorem start_command_resets_witness:
  "trim paddedStart = ascii ''/project''
   \<and> inProgressStore 7 =
       Some \<lparr>step = 1, answers = [Key_work_location \<mapsto> ascii ''2 BHK flat''],
             waitingForAssignConfirm = False\<rparr>
   \<and> handleProjectConversation inProgressStore 7 (Some paddedStart) =
        (replyOnly firstQuestionText,
         inProgressStore(7 \<mapsto> \<lparr>step = 0, answers = Map.empty, waitingForAssignConfirm = False\<rparr>))"
proof -
  have h: "trim paddedStart = ascii ''/project''"
    by (simp add: paddedStart_def string_defs)
  have s: "inProgressStore 7 =
       Some \<lparr>step = 1, answers = [Key_work_location \<mapsto> ascii ''2 BHK flat''],
             waitingForAssignConfirm = False\<rparr>"
    unfolding inProgressStore_def by simp
  show ?thesis
    using h s start_command_resets [OF h, of inProgressStore 7] by simp
qed

subsection \<open>C2 and C8: the yes/no classification of the two state machines\<close>

lemmas detect_defs = detectYes_def yesWords_def detectNo_def noWords_def string_defs

lemmas gate_defs = isYes_def isNo_def yesValues_def noValues_def string_defs

lemma basTheekHai_eval:
  "trim (ascii ''bas theek hai'') = ascii ''bas theek hai''"
  "\<not> detectGreeting (ascii ''bas theek hai'')"
  "detectYes (ascii ''bas theek hai'')" "\<not> detectNo (ascii ''bas theek hai'')"
  "\<not> isYes (ascii ''bas theek hai'')" "\<not> isNo (ascii ''bas theek hai'')"
  by (simp_all add: detectGreeting_def greetings_def detect_defs gate_defs)

lemma ji_gate_eval: "isYes (ascii ''ji'')"
  by (simp add: gate_defs)

lemma orchestrator_examples_eval:
  "detectYes haanDevanagari"
  "\<not> detectYes nahinDevanagari" "detectNo nahinDevanagari"
  "detectYes karDoDanda"
  "detectYes (ascii ''haan kar do'')" "detectNo (ascii ''haan kar do'')"
  by (simp_all add: haanDevanagari_def nahinDevanagari_def karDoDanda_def detect_defs)

lemma gate_examples_eval:
  "isYes haanDevanagari"
  "\<not> isYes nahinDevanagari" "isNo nahinDevanagari"
  "isYes karDoDanda"
  "isYes (ascii ''haan kar do'')"
  by (simp_all add: haanDevanagari_def nahinDevanagari_def karDoDanda_def gate_defs)

lemma basTheekHaiTurn_run:
  "runLeadOrchestrator basTheekHaiTurn =
     plain siteVisitAskReply
       (pendingState\<lparr>leadStatus := LEAD_CAPTURED, lastIntent := Some CI_SCHEDULE_SITE_VISIT\<rparr>)"
  using basTheekHai_eval
  by (simp add: runLeadOrchestrator_def basTheekHaiTurn_def turn_def intentRules_def
      confirmationRule_def pendingState_def)

lemma waiting_basTheekHai:
  "handleProjectConversation waitingStore 7 (Some (ascii ''bas theek hai''))
     = (replyOnly repromptReply, waitingStore)"
  using basTheekHai_eval
  by (simp add: handleProjectConversation_def waitingStore_def)

text \<open>
  The two classifications are the branches the state machines take: the yes/no rule of the turn
  orchestrator on a pending confirmation, and the step flow on a chat that waits for its
  confirmation.
\<close>

lemma confirmationRule_classified:
  assumes "lastIntent st = Some CI_LEAD_CAPTURED" and "leadStatus st = NEW"
  shows "confirmationRule st t =
          (case orchestratorConfirmation t of
             YES \<Rightarrow> Some (plain siteVisitAskReply
                       (st\<lparr>leadStatus := LEAD_CAPTURED, lastIntent := Some CI_SCHEDULE_SITE_VISIT\<rparr>))
           | NO \<Rightarrow> Some (plain modificationAskReply (st\<lparr>lastIntent := Some CI_LEAD_MODIFICATION\<rparr>))
           | AMBIGUOUS \<Rightarrow> None)"
  using assms by (simp add: confirmationRule_def orchestratorConfirmation_def)

lemma stepFlow_classified:
  assumes "cs chatId = Some st" and "waitingForAssignConfirm st"
      and "trim raw \<noteq> []" and "trim raw \<noteq> ascii ''/project''"
  shows "handleProjectConversation cs chatId (Some raw) =
          (case stepFlowConfirmation (trim raw) of
             YES \<Rightarrow> (\<lparr>replyText = Some assignedReply, savePayload = Some (payloadOf st True)\<rparr>,
                     cs(chatId := None))
           | NO \<Rightarrow> (\<lparr>replyText = Some notAssignedReply, savePayload = Some (payloadOf st False)\<rparr>,
                    cs(chatId := None))
           | AMBIGUOUS \<Rightarrow> (replyOnly repromptReply, cs))"
  using assms by (simp add: handleProjectConversation_def stepFlowConfirmation_def Let_def)

text \<open>
  The step flow's gate has the resolver the examples describe: exact matches on the three forms
  of the text, and substring tests only for \<open>raw.length <= 15\<close>.
\<close>

lemma stepFlow_resolver_values:
  "stepFlowConfirmation haanDevanagari = YES
   \<and> stepFlowConfirmation nahinDevanagari = NO
   \<and> stepFlowConfirmation karDoDanda = YES
   \<and> stepFlowConfirmation (ascii ''haan kar do'') = YES
   \<and> stepFlowConfirmation (ascii ''bas theek hai'') = AMBIGUOUS"
  unfolding stepFlowConfirmation_def
  using gate_examples_eval basTheekHai_eval by simp

text \<open>
  C2, on \<open>detectYes\<close> and \<open>detectNo\<close> as the turn orchestrator combines them: the first four
  examples come out as C2 has them (on \<open>haan kar do\<close> both checks fire and the yes-check is
  tested first). The fifth does not: \<open>bas theek hai\<close> has 13 code units, \<open>detectYes\<close> tests
  \<open>raw.includes('ha')\<close> without any limit on the length, \<open>hai\<close> contains \<open>ha\<close>, and a pending
  confirmation is committed as a yes.
\<close>

theorem orchestrator_resolver_values:
  "orchestratorConfirmation haanDevanagari = YES
   \<and> orchestratorConfirmation nahinDevanagari = NO
   \<and> orchestratorConfirmation karDoDanda = YES
   \<and> orchestratorConfirmation (ascii ''haan kar do'') = YES
   \<and> length (ascii ''bas theek hai'') = 13
   \<and> detectYes (ascii ''bas theek hai'')
   \<and> orchestratorConfirmation (ascii ''bas theek hai'') = YES
   \<and> leadStatus (newState (runLeadOrchestrator basTheekHaiTurn)) = LEAD_CAPTURED"
  unfolding basTheekHaiTurn_run orchestratorConfirmation_def
  using orchestrator_examples_eval basTheekHai_eval by (simp add: pendingState_def)

text \<open>
  C8, at two inputs where the two state machines classify differently: \<open>bas theek hai\<close> is a yes
  for the turn orchestrator (the pending lead is captured) and ambiguous for the step flow (it
  reprompts and keeps its state); \<open>ji\<close> is ambiguous for the turn orchestrator and a yes for the
  step flow.
\<close>

theorem two_classifiers_differ:
  "orchestratorConfirmation (ascii ''bas theek hai'') = YES
   \<and> stepFlowConfirmation (ascii ''bas theek hai'') = AMBIGUOUS
   \<and> orchestratorConfirmation (ascii ''ji'') = AMBIGUOUS
   \<and> stepFlowConfirmation (ascii ''ji'') = YES
   \<and> leadStatus (newState (runLeadOrchestrator basTheekHaiTurn)) = LEAD_CAPTURED
   \<and> handleProjectConversation waitingStore 7 (Some (ascii ''bas theek hai''))
       = (replyOnly repromptReply, waitingStore)"
  unfolding basTheekHaiTurn_run waiting_basTheekHai orchestratorConfirmation_def
    stepFlowConfirmation_def
  using basTheekHai_eval ji_eval ji_gate_eval by (simp add: pendingState_def)

subsection \<open>C4: the two-turn scenario\<close>

lemma generateConfirmation_nonempty: "generateConfirmation a \<noteq> []"
  by (simp add: generateConfirmation_def confirmationHead_def Let_def)

lemma hello_eval: "detectGreeting (trim (text_in helloTurn))"
  by (simp add: helloTurn_def turn_def detectGreeting_def greetings_def string_defs)

lemma helloTurn_run:
  "runLeadOrchestrator helloTurn
     = plain greetingReply (freshState\<lparr>lastIntent := Some CI_GREETING\<rparr>)"
  using hello_eval
  by (simp add: runLeadOrchestrator_def intentRules_def) (simp add: helloTurn_def turn_def)

text \<open>
  C4 as stated fails on the first turn: it asks for nothing about the text, and the greeting
  heuristic (line 413) is tested before the analysis is looked at. An utterance that gives every
  detail but opens with \<open>hello\<close> gets the greeting, and \<open>lastIntent\<close> becomes \<open>GREETING\<close>.
\<close>

theorem greeting_first_counterexample:
  "state helloTurn = freshState \<and> intent_in helloTurn = None
   \<and> analysis helloTurn = analysed fullAnalysis
   \<and> generateFollowupQuestions fullAnalysis None = \<lparr>missing = [], questions = []\<rparr>
   \<and> reply (runLeadOrchestrator helloTurn) = greetingReply
   \<and> lastIntent (newState (runLeadOrchestrator helloTurn)) = Some CI_GREETING"
  unfolding helloTurn_run full_followup by (simp add: helloTurn_def turn_def)

text \<open>
  No rule on the classified intent returns exactly when there is no intent, or the intent is
  \<open>NEW_LEAD\<close> or \<open>OTHER\<close>, or it is \<open>UPDATE_EXISTING_LEAD\<close> on a bound project.
\<close>

lemma intentRules_None_iff:
  "intentRules inp = None \<longleftrightarrow>
     (case intent_in inp of
        None \<Rightarrow> True
      | Some i \<Rightarrow> intent i = NEW_LEAD \<or> intent i = OTHER
                  \<or> (intent i = UPDATE_EXISTING_LEAD \<and> truthyStr (leadId (state inp))))"
  by (cases "intent_in inp"; cases "intent (the (intent_in inp))")
     (auto simp: intentRules_def Let_def)

lemma firstTurn_run:
  assumes "missing (generateFollowupQuestions a i1) = []"
      and "intentRules (firstTurn t1 a e i1 m1) = None"
      and "\<not> detectGreeting (trim t1)"
  shows "runLeadOrchestrator (firstTurn t1 a e i1 m1) =
           plain (generateConfirmation a) (freshState\<lparr>lastIntent := Some CI_LEAD_CAPTURED\<rparr>)"
proof -
  have "confirmationRule freshState (trim t1) = None"
    by (simp add: confirmationRule_def freshState_def)
  moreover have "analysisRules (firstTurn t1 a e i1 m1) =
           plain (generateConfirmation a) (freshState\<lparr>lastIntent := Some CI_LEAD_CAPTURED\<rparr>)"
    using assms(1) generateConfirmation_nonempty [of a]
    by (simp add: analysisRules_def followupRule_def firstTurn_def Let_def)
       (simp add: freshState_def)
  ultimately show ?thesis
    using assms(2,3) by (simp add: runLeadOrchestrator_def Let_def) (simp add: firstTurn_def)
qed

text \<open>
  C4, amended: from the state \<open>{leadStatus: NEW}\<close>, with a successful analysis for which the
  missing-field resolver reports nothing, a text that the greeting heuristic does not match, and
  in both turns no intent that an intent rule returns on, the first turn replies with the recap
  confirmation and sets \<open>lastIntent = LEAD_CAPTURED\<close>; the second turn, with the text \<open>haan\<close>,
  the state the first turn returned and any analysis and measurements, replies with the request
  for a day and time of the site visit and returns \<open>leadStatus = LEAD_CAPTURED\<close> and
  \<open>lastIntent = SCHEDULE_SITE_VISIT\<close>.
\<close>

theorem two_turn_scenario:
  assumes "missing (generateFollowupQuestions a i1) = []"
      and "intentRules (firstTurn t1 a e i1 m1) = None"
      and "\<not> detectGreeting (trim t1)"
      and "intentRules (nextTurn (ascii ''haan'')
             (runLeadOrchestrator (firstTurn t1 a e i1 m1)) an2 i2 m2) = None"
  shows "reply (runLeadOrchestrator (firstTurn t1 a e i1 m1)) = generateConfirmation a
       \<and> lastIntent (newState (runLeadOrchestrator (firstTurn t1 a e i1 m1))) = Some CI_LEAD_CAPTURED
       \<and> reply (runLeadOrchestrator
            (nextTurn (ascii ''haan'') (runLeadOrchestrator (firstTurn t1 a e i1 m1)) an2 i2 m2))
           = siteVisitAskReply
       \<and> leadStatus (newState (runLeadOrchestrator
            (nextTurn (ascii ''haan'') (runLeadOrchestrator (firstTurn t1 a e i1 m1)) an2 i2 m2)))
           = LEAD_CAPTURED
       \<and> lastIntent (newState (runLeadOrchestrator
            (nextTurn (ascii ''haan'') (runLeadOrchestrator (firstTurn t1 a e i1 m1)) an2 i2 m2)))
           = Some CI_SCHEDULE_SITE_VISIT"
proof -
  let ?out1 = "runLeadOrchestrator (firstTurn t1 a e i1 m1)"
  let ?inp2 = "nextTurn (ascii ''haan'') ?out1 an2 i2 m2"
  have out1: "?out1 = plain (generateConfirmation a)
                        (freshState\<lparr>lastIntent := Some CI_LEAD_CAPTURED\<rparr>)"
    using assms(1,2,3) by (rule firstTurn_run)
  have st2: "state ?inp2 = freshState\<lparr>lastIntent := Some CI_LEAD_CAPTURED\<rparr>"
    unfolding out1 by (simp add: nextTurn_def)
  have tx2: "trim (text_in ?inp2) = ascii ''haan''"
    using haan_eval(1) by (simp add: nextTurn_def)
  have pend: "lastIntent (state ?inp2) = Some CI_LEAD_CAPTURED" "leadStatus (state ?inp2) = NEW"
    unfolding st2 by (simp_all add: freshState_def)
  have ng: "\<not> detectGreeting (trim (text_in ?inp2))"
    unfolding tx2 by (rule haan_eval(2))
  have yes: "detectYes (trim (text_in ?inp2))"
    unfolding tx2 by (rule haan_eval(3))
  have out2: "runLeadOrchestrator ?inp2 =
      plain siteVisitAskReply
        ((state ?inp2)\<lparr>leadStatus := LEAD_CAPTURED, lastIntent := Some CI_SCHEDULE_SITE_VISIT\<rparr>)"
    using pend assms(4) ng yes by (simp add: runLeadOrchestrator_def confirmationRule_def Let_def)
  show ?thesis
    unfolding out2 unfolding out1 by simp
qed

text \<open>The amended C4 on a complete first utterance without intent.\<close>

theorem two_turn_scenario_witness:
  "missing (generateFollowupQuestions fullAnalysis None) = []
   \<and> intentRules (firstTurn firstUtterance fullAnalysis None None None) = None
   \<and> \<not> detectGreeting (trim firstUtterance)
   \<and> intentRules (nextTurn (ascii ''haan'')
         (runLeadOrchestrator (firstTurn firstUtterance fullAnalysis None None None))
         (analysed timeOnlyAnalysis) None None) = None
   \<and> reply (runLeadOrchestrator (firstTurn firstUtterance fullAnalysis None None None))
       = generateConfirmation fullAnalysis
   \<and> leadStatus (newState (runLeadOrchestrator
        (nextTurn (ascii ''haan'')
           (runLeadOrchestrator (firstTurn firstUtterance fullAnalysis None None None))
           (analysed timeOnlyAnalysis) None None))) = LEAD_CAPTURED"
proof -
  have h1: "missing (generateFollowupQuestions fullAnalysis None) = []"
    by (simp add: full_followup)
  have h2: "intentRules (firstTurn firstUtterance fullAnalysis None None None) = None"
    by (simp add: intentRules_def firstTurn_def)
  have h3: "\<not> detectGreeting (trim firstUtterance)"
    by (simp add: firstUtterance_def detectGreeting_def greetings_def string_defs)
  have h4: "intentRules (nextTurn (ascii ''haan'')
         (runLeadOrchestrator (firstTurn firstUtterance fullAnalysis None None None))
         (analysed timeOnlyAnalysis) None None) = None"
    by (simp add: intentRules_def nextTurn_def)
  show ?thesis
    using h1 h2 h3 h4 two_turn_scenario [OF h1 h2 h3 h4] by simp
qed

subsection \<open>C6: the parameters of a quote request\<close>

text \<open>
  \<open>search\<close> finds nothing exactly when the matcher fails at every start index, and the matcher
  of \<open>(\d+)\s*options?\<close> succeeds at the start of a string exactly on a run of digits, white
  space and the word \<open>option\<close>; so the search finds nothing exactly on the texts without
  such a phrase.
\<close>

lemma search_None_iff: "search m t = None \<longleftrightarrow> (\<forall>pre s. t = pre @ s \<longrightarrow> m s = None)"
proof (induction t)
  case Nil
  then show ?case by simp
next
  case (Cons c cs)
  show ?case
  proof
    assume a: "search m (c # cs) = None"
    then have h: "m (c # cs) = None" "search m cs = None"
      by (auto split: option.splits)
    show "\<forall>pre s. c # cs = pre @ s \<longrightarrow> m s = None"
    proof (intro allI impI)
      fix pre s assume e: "c # cs = pre @ s"
      show "m s = None"
      proof (cases pre)
        case Nil
        with e h(1) show ?thesis by simp
      next
        case (Cons p ps)
        with e have "cs = ps @ s" by simp
        with h(2) Cons.IH show ?thesis by blast
      qed
    qed
  next
    assume a: "\<forall>pre s. c # cs = pre @ s \<longrightarrow> m s = None"
    then have "m (c # cs) = None" by (metis append_Nil)
    moreover have "\<forall>pre s. cs = pre @ s \<longrightarrow> m s = None"
      using a by (metis append_Cons)
    ultimately show "search m (c # cs) = None"
      using Cons.IH by simp
  qed
qed

lemma lit_False_iff: "lit False p s \<longleftrightarrow> (\<exists>post. s = p @ post)"
  by (induction "False" p s rule: lit.induct) auto

lemma space_not_digit: "isSpace c \<Longrightarrow> \<not> isDigit c"
  by (auto simp: isSpace_def isDigit_def)

lemma takeWhile_stop:
  assumes "ys = [] \<or> \<not> P (hd ys)"
  shows "takeWhile P ys = []" and "dropWhile P ys = ys"
  using assms by (cases ys; simp)+

lemma takeWhile_run:
  assumes "list_all P xs" and "ys = [] \<or> \<not> P (hd ys)"
  shows "takeWhile P (xs @ ys) = xs" and "dropWhile P (xs @ ys) = ys"
  using assms by (induction xs) (simp_all add: takeWhile_stop)



lemma list_all_takeWhile: "list_all P (takeWhile P xs)"
  by (induction xs) simp_all

lemma optionsAt_Some_iff:
  "optionsAt s \<noteq> None \<longleftrightarrow>
     (\<exists>ds ws post. s = ds @ ws @ ascii ''option'' @ post
        \<and> ds \<noteq> [] \<and> list_all isDigit ds \<and> list_all isSpace ws)"
  (is "?lhs \<longleftrightarrow> ?rhs")
proof
  assume ?lhs
  then have ne: "takeWhile isDigit s \<noteq> []"
    and l: "lit False (ascii ''option'') (dropWhile isSpace (dropWhile isDigit s))"
    by (auto simp: optionsAt_def Let_def split: if_splits)
  from l obtain post where p: "dropWhile isSpace (dropWhile isDigit s) = ascii ''option'' @ post"
    unfolding lit_False_iff by (rule exE)
  let ?ds = "takeWhile isDigit s" and ?ws = "takeWhile isSpace (dropWhile isDigit s)"
  have "?ds @ ?ws @ dropWhile isSpace (dropWhile isDigit s) = s"
    by simp
  then have e: "s = ?ds @ ?ws @ ascii ''option'' @ post"
    unfolding p by (rule sym)
  show ?rhs
  proof (intro exI conjI)
    show "s = ?ds @ ?ws @ ascii ''option'' @ post" by (rule e)
    show "?ds \<noteq> []" by (rule ne)
    show "list_all isDigit ?ds" by (rule list_all_takeWhile)
    show "list_all isSpace ?ws" by (rule list_all_takeWhile)
  qed
next
  assume ?rhs
  then obtain ds ws post where s: "s = ds @ (ws @ ascii ''option'' @ post)"
    and ne: "ds \<noteq> []" and d: "list_all isDigit ds" and w: "list_all isSpace ws"
    by (elim exE conjE)
  have nd: "\<not> isDigit (hd (ws @ ascii ''option'' @ post))"
  proof (cases ws)
    case Nil
    then show ?thesis by (simp add: isDigit_def)
  next
    case (Cons c cs)
    then show ?thesis using w space_not_digit by auto
  qed
  have ns: "\<not> isSpace (hd (ascii ''option'' @ post))"
    by (simp add: isSpace_def)
  have t: "takeWhile isDigit s = ds"
    unfolding s using d nd by (intro takeWhile_run(1)) simp_all
  have r: "dropWhile isDigit s = ws @ ascii ''option'' @ post"
    unfolding s using d nd by (intro takeWhile_run(2)) simp_all
  have r2: "dropWhile isSpace (dropWhile isDigit s) = ascii ''option'' @ post"
    unfolding r using w ns by (intro takeWhile_run(2)) simp_all
  have "lit False (ascii ''option'') (dropWhile isSpace (dropWhile isDigit s))"
    unfolding r2 lit_False_iff by (rule exI) (rule refl)
  then show ?lhs
    using ne unfolding optionsAt_def Let_def t by simp
qed


lemma hasOptionsPhrase_iff:
  "hasOptionsPhrase t \<longleftrightarrow> (\<exists>pre s. t = pre @ s \<and> optionsAt s \<noteq> None)"
  (is "?lhs \<longleftrightarrow> ?rhs")
proof
  assume ?lhs
  then obtain pre ds ws post where t: "t = pre @ ds @ ws @ ascii ''option'' @ post"
    and c: "ds \<noteq> []" "list_all isDigit ds" "list_all isSpace ws"
    unfolding hasOptionsPhrase_def by (elim exE conjE)
  have "optionsAt (ds @ ws @ ascii ''option'' @ post) \<noteq> None"
    unfolding optionsAt_Some_iff
  proof (intro exI conjI)
    show "ds @ ws @ ascii ''option'' @ post = ds @ ws @ ascii ''option'' @ post" by (rule refl)
  qed (rule c)+
  with t show ?rhs by (intro exI conjI)
next
  assume ?rhs
  then obtain pre s where t: "t = pre @ s" and "optionsAt s \<noteq> None"
    by (elim exE conjE)
  then obtain ds ws post where s: "s = ds @ ws @ ascii ''option'' @ post"
    and c: "ds \<noteq> []" "list_all isDigit ds" "list_all isSpace ws"
    unfolding optionsAt_Some_iff by (elim exE conjE)
  show ?lhs
    unfolding hasOptionsPhrase_def
  proof (intro exI conjI)
    show "t = pre @ ds @ ws @ ascii ''option'' @ post" unfolding t s by (rule refl)
  qed (rule c)+
qed

lemma search_optionsAt_None_iff: "search optionsAt t = None \<longleftrightarrow> \<not> hasOptionsPhrase t"
  unfolding hasOptionsPhrase_iff search_None_iff by simp


lemmas extract_defs = extractRequirements_def optionsAt_def timelineAt_def durationAt_def
  unitLen_def percentAt_def advanceBeforeAt_def advanceAfterAt_def isDigit_def parseInt_def
  string_defs

lemma example_requirements:
  "extractRequirements (ascii ''3 options, timeline 5 days, advance 30%'') =
     \<lparr>options = 3, timeline = Some (ascii ''5 days''), advance = Some 30,
      labour_and_material = False\<rparr>"
  by (simp add: extract_defs)

lemma quoteRule_run:
  assumes "intent_in inp = Some i" and "intent i = GENERATE_QUOTE_OPTIONS"
  shows "runLeadOrchestrator inp = quoteRule inp"
  using assms by (simp add: runLeadOrchestrator_def intentRules_def Let_def)

text \<open>
  C6: on a turn with intent \<open>GENERATE_QUOTE_OPTIONS\<close> whose dependency gate is satisfied and
  whose utterance is \<open>3 options, timeline 5 days, advance 30%\<close>, the output carries the tool
  call \<open>generate_quote_options\<close> with the requirements \<open>options = 3\<close>, \<open>timeline = "5 days"\<close>,
  \<open>advance = 30\<close> (and \<open>labour_and_material = false\<close>); and for every utterance whose
  lower-cased text has no run of digits followed by optional white space and \<open>option\<close>, the
  options count is 3.
\<close>

theorem quote_parameters:
  "(intent_in inp = Some i \<and> intent i = GENERATE_QUOTE_OPTIONS
      \<and> quoteDependencies (state inp) (measurements inp) = []
      \<and> text_in inp = ascii ''3 options, timeline 5 days, advance 30%''
    \<longrightarrow> map_option tool_name (toolCall (runLeadOrchestrator inp))
          = Some (ascii ''generate_quote_options'')
        \<and> map_option (\<lambda>c. requirements (arguments c)) (toolCall (runLeadOrchestrator inp))
          = Some \<lparr>options = 3, timeline = Some (ascii ''5 days''), advance = Some 30,
                  labour_and_material = False\<rparr>)
   \<and> (\<not> hasOptionsPhrase (toLowerCase text) \<longrightarrow> options (extractRequirements text) = 3)"
proof (intro conjI impI)
  assume a: "intent_in inp = Some i \<and> intent i = GENERATE_QUOTE_OPTIONS
      \<and> quoteDependencies (state inp) (measurements inp) = []
      \<and> text_in inp = ascii ''3 options, timeline 5 days, advance 30%''"
  then have run: "runLeadOrchestrator inp = quoteRule inp"
    using quoteRule_run by blast
  have tc: "toolCall (quoteRule inp) = Some
                \<lparr>tool_name = ascii ''generate_quote_options'',
                 arguments =
                   \<lparr>arg_leadId = leadId (state inp),
                    jobType = map_option job_type (data (analysis inp)),
                    location = (case data (analysis inp) of
                                  None \<Rightarrow> None
                                | Some a \<Rightarrow> if truthyStr (location_text a)
                                            then location_text a else None),
                    requirements =
                      extractRequirements (ascii ''3 options, timeline 5 days, advance 30%'')\<rparr>\<rparr>"
    using a unfolding quoteRule_def Let_def plain_def by simp
  show "map_option tool_name (toolCall (runLeadOrchestrator inp))
          = Some (ascii ''generate_quote_options'')"
    unfolding run tc by simp
  show "map_option (\<lambda>c. requirements (arguments c)) (toolCall (runLeadOrchestrator inp))
          = Some \<lparr>options = 3, timeline = Some (ascii ''5 days''), advance = Some 30,
                  labour_and_material = False\<rparr>"
    unfolding run tc example_requirements by simp
next
  assume "\<not> hasOptionsPhrase (toLowerCase text)"
  then have "search optionsAt (toLowerCase text) = None"
    by (simp add: search_optionsAt_None_iff)
  then show "options (extractRequirements text) = 3"
    by (simp add: extractRequirements_def Let_def)
qed

lemma quoteWithoutCount_search: "search optionsAt (toLowerCase quoteWithoutCount) = None"
  by (simp add: quoteWithoutCount_def optionsAt_def isDigit_def string_defs)

text \<open>C6 on a quote request for a bound, measured project, and on a request without a count.\<close>

theorem quote_parameters_witness:
  "intent_in quoteTurn = Some \<lparr>intent = GENERATE_QUOTE_OPTIONS, lead_hint = None, topic = None\<rparr>
   \<and> quoteDependencies (state quoteTurn) (measurements quoteTurn) = []
   \<and> text_in quoteTurn = ascii ''3 options, timeline 5 days, advance 30%''
   \<and> map_option (\<lambda>c. requirements (arguments c)) (toolCall (runLeadOrchestrator quoteTurn))
       = Some \<lparr>options = 3, timeline = Some (ascii ''5 days''), advance = Some 30,
               labour_and_material = False\<rparr>
   \<and> \<not> hasOptionsPhrase (toLowerCase quoteWithoutCount)
   \<and> options (extractRequirements quoteWithoutCount) = 3"
proof -
  let ?i = "\<lparr>intent = GENERATE_QUOTE_OPTIONS, lead_hint = None, topic = None\<rparr>"
  have h1: "intent_in quoteTurn = Some ?i"
    by (simp add: quoteTurn_def)
  have h2: "intent ?i = GENERATE_QUOTE_OPTIONS"
    by simp
  have h3: "quoteDependencies (state quoteTurn) (measurements quoteTurn) = []"
    by (simp add: quoteTurn_def quoteDependencies_def hasBasicMeasurement_def notNull_def
        truthyStr_def truthyNum_def)
  have h4: "text_in quoteTurn = ascii ''3 options, timeline 5 days, advance 30%''"
    unfolding quoteTurn_def by simp
  have h5: "\<not> hasOptionsPhrase (toLowerCase quoteWithoutCount)"
    using quoteWithoutCount_search by (simp add: search_optionsAt_None_iff)
  show ?thesis
    using h1 h2 h3 h4 h5 quote_parameters [of quoteTurn ?i quoteWithoutCount] by blast
qed

end
